theory Spec2Isabelle
  imports Complex_Main "HOL-Library.AList"
begin

section \<open>JavaScript strings, numbers and arrays as the builder uses them\<close>

text \<open>
  A JavaScript string is a \<^typ>\<open>string\<close>; every character the code below inspects is ASCII.
\<close>

definition digit_char :: "nat \<Rightarrow> char" where
  "digit_char n = ''0123456789'' ! (n mod 10)"

fun string_of_nat :: "nat \<Rightarrow> string" where
  "string_of_nat n =
     (if n < 10 then [digit_char n] else string_of_nat (n div 10) @ [digit_char n])"

declare string_of_nat.simps [simp del]

text \<open>
  A JavaScript number is \<^verbatim>\<open>NaN\<close>, an infinity, or a finite value. The builder never
  computes with numbers, it only prints them, and \<^verbatim>\<open>Number::toString\<close> of ECMAScript
  prints a finite number from its sign and its shortest decimal expansion: the digits
  \<open>s\<close> and the exponent \<open>n\<close> with value \<open>0.s \<times> 10\<^sup>n\<close>. A finite number is therefore
  \<open>Finite neg s n\<close>; zero has \<open>s = 0\<close>. Every double is one of these values.
\<close>

datatype js_number = NaN | PosInfinity | NegInfinity | Finite bool nat int

text \<open>The digits are taken without trailing zeros (\<open>k\<close> as small as possible).\<close>

fun strip_zeros :: "nat \<Rightarrow> nat" where
  "strip_zeros s = (if 0 < s \<and> s mod 10 = 0 then strip_zeros (s div 10) else s)"

declare strip_zeros.simps [simp del]

text \<open>
  \<^verbatim>\<open>Number::toString\<close> for a positive finite number: plain digits when the decimal point
  falls within or right after the digits and \<open>n \<le> 21\<close>, a leading \<^verbatim>\<open>0.\<close> for
  \<open>-6 < n \<le> 0\<close>, and exponent notation otherwise.
\<close>

definition finite_toString :: "nat \<Rightarrow> int \<Rightarrow> string" where
  "finite_toString s n =
     (let ds = string_of_nat (strip_zeros s); k = int (length ds)
      in if k \<le> n \<and> n \<le> 21 then ds @ replicate (nat (n - k)) CHR ''0''
         else if 0 < n \<and> n \<le> 21 then take (nat n) ds @ ''.'' @ drop (nat n) ds
         else if - 6 < n \<and> n \<le> 0 then ''0.'' @ replicate (nat (- n)) CHR ''0'' @ ds
         else let e = n - 1;
                  es = (if e < 0 then ''-'' else ''+'') @ string_of_nat (nat \<bar>e\<bar>)
              in if k = 1 then ds @ ''e'' @ es
                 else take 1 ds @ ''.'' @ drop 1 ds @ ''e'' @ es)"

fun number_toString :: "js_number \<Rightarrow> string" where
  "number_toString NaN = ''NaN''"
| "number_toString PosInfinity = ''Infinity''"
| "number_toString NegInfinity = ''-Infinity''"
| "number_toString (Finite neg s n) =
     (if s = 0 then ''0''
      else (if neg then ''-'' else []) @ finite_toString s n)"

text \<open>The number with a whole value: its digits, and as many places as it has digits.\<close>

definition Integer :: "int \<Rightarrow> js_number" where
  "Integer i = Finite (i < 0) (nat \<bar>i\<bar>) (int (length (string_of_nat (nat \<bar>i\<bar>))))"

text \<open>\<^verbatim>\<open>Array.prototype.join\<close>: the elements with the separator between neighbours.\<close>

fun array_join :: "string \<Rightarrow> string list \<Rightarrow> string" where
  "array_join sep [] = []"
| "array_join sep [x] = x"
| "array_join sep (x # y # ys) = x @ sep @ array_join sep (y # ys)"

text \<open>\<^verbatim>\<open>xs.map((x, i) => f(x, i))\<close>: the callback sees each element with its index.\<close>

definition map_index :: "('a \<Rightarrow> nat \<Rightarrow> 'b) \<Rightarrow> 'a list \<Rightarrow> 'b list" where
  "map_index f xs = map (\<lambda>(i, x). f x i) (enumerate 0 xs)"

text \<open>
  \<^verbatim>\<open>s.replace(c, r)\<close> with a one-character string pattern replaces the first occurrence only.
\<close>

fun replace_first :: "char \<Rightarrow> string \<Rightarrow> string \<Rightarrow> string" where
  "replace_first c r [] = []"
| "replace_first c r (x # xs) = (if x = c then r @ xs else x # replace_first c r xs)"

section \<open>Errors\<close>

text \<open>
  \<^verbatim>\<open>throw new Error(msg)\<close> is \<open>Error msg\<close>; \<open>RangeError\<close> is what
  \<^verbatim>\<open>Date.prototype.toISOString\<close> throws on an invalid date.
\<close>

datatype error = Error string | RangeError string

text \<open>
  The source has no error class of its own. The specification's \<^emph>\<open>InvalidOperatorUsage\<close> names
  the three plain errors that \<^verbatim>\<open>buildCondition\<close> throws.
\<close>

definition InvalidOperatorUsage :: "error \<Rightarrow> bool" where
  "InvalidOperatorUsage e \<longleftrightarrow>
     e = Error ''BETWEEN operator requires an array of two values''
   \<or> e = Error ''IN operator requires an array value''
   \<or> e = Error ''NOT IN operator requires an array value''"

text \<open>The first exception thrown inside \<^verbatim>\<open>xs.map(f)\<close> aborts the whole map.\<close>

fun collect :: "(error + 'a) list \<Rightarrow> error + 'a list" where
  "collect [] = Inr []"
| "collect (Inl e # rs) = Inl e"
| "collect (Inr x # rs) = (case collect rs of Inl e \<Rightarrow> Inl e | Inr xs \<Rightarrow> Inr (x # xs))"

section \<open>Dates\<close>

text \<open>
  A JavaScript \<^verbatim>\<open>Date\<close> holds a time value: \<^verbatim>\<open>NaN\<close> (an invalid date) or a whole
  number of milliseconds since 1970-01-01T00:00:00Z, at most 8.64e15 in absolute value.
  \<open>TimeValue t\<close> is \<^verbatim>\<open>new Date(t)\<close>, whose constructor clips: beyond that range the date
  is invalid. \<^verbatim>\<open>toISOString\<close> follows ECMAScript: it throws \<^verbatim>\<open>RangeError\<close> on an
  invalid date and otherwise prints the proleptic Gregorian UTC date as
  \<^verbatim>\<open>YYYY-MM-DDTHH:mm:ss.sssZ\<close>, with a sign and six year digits when the year is outside
  0..9999.
\<close>

datatype js_date = InvalidDate | TimeValue int

definition TimeClip :: "int \<Rightarrow> int option" where
  "TimeClip t = (if \<bar>t\<bar> > 8640000000000000 then None else Some t)"

definition thisTimeValue :: "js_date \<Rightarrow> int option" where
  "thisTimeValue d = (case d of InvalidDate \<Rightarrow> None | TimeValue t \<Rightarrow> TimeClip t)"

definition msPerDay :: int where
  "msPerDay = 86400000"

definition Day :: "int \<Rightarrow> int" where
  "Day t = t div msPerDay"

definition TimeWithinDay :: "int \<Rightarrow> int" where
  "TimeWithinDay t = t mod msPerDay"

text \<open>Year, month (1..12) and day of month (1..31) of a day number counted from 1970-01-01.\<close>

definition civil_from_days :: "int \<Rightarrow> int \<times> int \<times> int" where
  "civil_from_days z0 =
     (let z = z0 + 719468;
          era = z div 146097;
          doe = z mod 146097;
          yoe = (doe - doe div 1460 + doe div 36524 - doe div 146096) div 365;
          doy = doe - (365 * yoe + yoe div 4 - yoe div 100);
          mp = (5 * doy + 2) div 153;
          d = doy - (153 * mp + 2) div 5 + 1;
          m = (if mp < 10 then mp + 3 else mp - 9);
          y = yoe + era * 400 + (if m \<le> 2 then 1 else 0)
      in (y, m, d))"

definition YearFromTime :: "int \<Rightarrow> int" where
  "YearFromTime t = fst (civil_from_days (Day t))"

definition MonthFromTime :: "int \<Rightarrow> int" where
  "MonthFromTime t = fst (snd (civil_from_days (Day t)))"

definition DateFromTime :: "int \<Rightarrow> int" where
  "DateFromTime t = snd (snd (civil_from_days (Day t)))"

definition HourFromTime :: "int \<Rightarrow> int" where
  "HourFromTime t = TimeWithinDay t div 3600000"

definition MinFromTime :: "int \<Rightarrow> int" where
  "MinFromTime t = TimeWithinDay t div 60000 mod 60"

definition SecFromTime :: "int \<Rightarrow> int" where
  "SecFromTime t = TimeWithinDay t div 1000 mod 60"

definition msFromTime :: "int \<Rightarrow> int" where
  "msFromTime t = TimeWithinDay t mod 1000"

definition pad2 :: "int \<Rightarrow> string" where
  "pad2 n = [digit_char (nat n div 10), digit_char (nat n)]"

definition pad3 :: "int \<Rightarrow> string" where
  "pad3 n = [digit_char (nat n div 100), digit_char (nat n div 10), digit_char (nat n)]"

definition pad4 :: "int \<Rightarrow> string" where
  "pad4 n = [digit_char (nat n div 1000), digit_char (nat n div 100),
             digit_char (nat n div 10), digit_char (nat n)]"

definition pad6 :: "int \<Rightarrow> string" where
  "pad6 n = [digit_char (nat n div 100000), digit_char (nat n div 10000),
             digit_char (nat n div 1000), digit_char (nat n div 100),
             digit_char (nat n div 10), digit_char (nat n)]"

definition iso_year :: "int \<Rightarrow> string" where
  "iso_year y =
     (if 0 \<le> y \<and> y \<le> 9999 then pad4 y
      else if y < 0 then CHR ''-'' # pad6 (- y)
      else CHR ''+'' # pad6 y)"

definition iso_date :: "int \<Rightarrow> string" where
  "iso_date t =
     iso_year (YearFromTime t) @ ''-'' @ pad2 (MonthFromTime t) @ ''-'' @ pad2 (DateFromTime t)"

definition iso_time :: "int \<Rightarrow> string" where
  "iso_time t = pad2 (HourFromTime t) @ '':'' @ pad2 (MinFromTime t) @ '':'' @ pad2 (SecFromTime t)"

definition toISOString :: "js_date \<Rightarrow> error + string" where
  "toISOString d =
     (case thisTimeValue d of
        None \<Rightarrow> Inl (RangeError ''Invalid time value'')
      | Some t \<Rightarrow> Inr (iso_date t @ ''T'' @ iso_time t @ ''.'' @ pad3 (msFromTime t) @ ''Z''))"

section \<open>The SQL literal quoting routine\<close>

definition quote_char :: char where
  "quote_char = CHR 0x27"

definition backslash :: char where
  "backslash = CHR 0x5C"

text \<open>
  Modelled from the spec: \<^verbatim>\<open>escape\<close> is imported from the package \<^verbatim>\<open>sqlstring\<close>, which is
  not part of the sources. The specification calls it a standard SQL-literal quoting
  routine that escapes quotes and control characters; the model is that package's
  documented behaviour on the values the builder hands to it. In a string, NUL,
  backspace, tab, newline, carriage return, Ctrl-Z, the double quote, the single quote
  and the backslash are each replaced by a backslash escape.
\<close>

definition escape_char :: "char \<Rightarrow> string" where
  "escape_char c =
     (if c = CHR 0x00 then [backslash, CHR ''0'']
      else if c = CHR 0x08 then [backslash, CHR ''b'']
      else if c = CHR 0x09 then [backslash, CHR ''t'']
      else if c = CHR 0x0A then [backslash, CHR ''n'']
      else if c = CHR 0x0D then [backslash, CHR ''r'']
      else if c = CHR 0x1A then [backslash, CHR ''Z'']
      else if c = CHR 0x22 then [backslash, CHR 0x22]
      else if c = quote_char then [backslash, quote_char]
      else if c = backslash then [backslash, backslash]
      else [c])"

text \<open>
  Modelled from the spec: the escaped characters of the string between two single quotes.
\<close>

definition escapeString :: "string \<Rightarrow> string" where
  "escapeString val = [quote_char] @ concat (map escape_char val) @ [quote_char]"

datatype js_value = JsUndefined | JsNull | JsBoolean bool | JsNumber js_number | JsString string

text \<open>
  Modelled from the spec: \<^verbatim>\<open>undefined\<close> and \<^verbatim>\<open>null\<close> give \<^verbatim>\<open>NULL\<close>, a boolean gives
  \<^verbatim>\<open>true\<close> or \<^verbatim>\<open>false\<close>, a number gives its digits, and a string is quoted.
\<close>

fun escape :: "js_value \<Rightarrow> string" where
  "escape JsUndefined = ''NULL''"
| "escape JsNull = ''NULL''"
| "escape (JsBoolean b) = (if b then ''true'' else ''false'')"
| "escape (JsNumber n) = number_toString n"
| "escape (JsString s) = escapeString s"

section \<open>Parameter values and the value escaper\<close>

text \<open>
  \<^verbatim>\<open>SqlValue = string | number | boolean | Date | null\<close> and
  \<^verbatim>\<open>SqlParam = SqlValue | SqlValue[]\<close>. The escaper recurses into arrays with itself, so
  one recursive type carries both; an optional argument \<^verbatim>\<open>value?: SqlParam\<close> is a
  \<^typ>\<open>'a option\<close> with \<open>None\<close> for \<^verbatim>\<open>undefined\<close>.
\<close>

datatype sql_param =
    SqlString string
  | SqlNumber js_number
  | SqlBoolean bool
  | SqlDate js_date
  | SqlNull
  | SqlArray "sql_param list"

fun escapeValue :: "sql_param option \<Rightarrow> error + string" where
  "escapeValue (Some SqlNull) = Inr ''NULL''"
| "escapeValue (Some (SqlArray vs)) =
     (case collect (map (\<lambda>v. escapeValue (Some v)) vs) of
        Inl e \<Rightarrow> Inl e
      | Inr ss \<Rightarrow> Inr (''('' @ array_join '', '' ss @ '')''))"
| "escapeValue (Some (SqlDate d)) =
     (case toISOString d of
        Inl e \<Rightarrow> Inl e
      | Inr s \<Rightarrow> Inr (escape (JsString (replace_first CHR ''T'' '' '' (take 19 s)))))"
| "escapeValue (Some (SqlString s)) = Inr (escape (JsString s))"
| "escapeValue (Some (SqlNumber n)) = Inr (escape (JsNumber n))"
| "escapeValue (Some (SqlBoolean b)) = Inr (escape (JsBoolean b))"
| "escapeValue None = Inr (escape JsUndefined)"

section \<open>Conditions\<close>

datatype operator =
  Eq | Gt | Lt | Ge | Le | Ne | In | NotIn | Like | NotLike | IsNull | IsNotNull | Between

fun operator_text :: "operator \<Rightarrow> string" where
  "operator_text Eq = ''=''"
| "operator_text Gt = ''>''"
| "operator_text Lt = ''<''"
| "operator_text Ge = ''>=''"
| "operator_text Le = ''<=''"
| "operator_text Ne = ''!=''"
| "operator_text In = ''IN''"
| "operator_text NotIn = ''NOT IN''"
| "operator_text Like = ''LIKE''"
| "operator_text NotLike = ''NOT LIKE''"
| "operator_text IsNull = ''IS NULL''"
| "operator_text IsNotNull = ''IS NOT NULL''"
| "operator_text Between = ''BETWEEN''"

datatype expression = Expression (sql: string)

definition toString :: "expression \<Rightarrow> string" where
  "toString e = sql e"

text \<open>A column argument \<^verbatim>\<open>string | Expression\<close>.\<close>

datatype column = Name string | Expr expression

definition columnStr :: "column \<Rightarrow> string" where
  "columnStr c = (case c of Expr e \<Rightarrow> toString e | Name s \<Rightarrow> s)"

fun buildCondition :: "column \<Rightarrow> operator \<Rightarrow> sql_param option \<Rightarrow> error + string" where
  "buildCondition col IsNull v = Inr (columnStr col @ '' IS NULL'')"
| "buildCondition col IsNotNull v = Inr (columnStr col @ '' IS NOT NULL'')"
| "buildCondition col Between v =
     (case v of
        Some (SqlArray [v0, v1]) \<Rightarrow>
          (case escapeValue (Some v0) of
             Inl e \<Rightarrow> Inl e
           | Inr s0 \<Rightarrow>
               (case escapeValue (Some v1) of
                  Inl e \<Rightarrow> Inl e
                | Inr s1 \<Rightarrow> Inr (columnStr col @ '' BETWEEN '' @ s0 @ '' AND '' @ s1)))
      | _ \<Rightarrow> Inl (Error ''BETWEEN operator requires an array of two values''))"
| "buildCondition col In v =
     (case v of
        Some (SqlArray vs) \<Rightarrow>
          (case escapeValue v of
             Inl e \<Rightarrow> Inl e
           | Inr s \<Rightarrow> Inr (columnStr col @ '' '' @ operator_text In @ '' '' @ s))
      | _ \<Rightarrow> Inl (Error (operator_text In @ '' operator requires an array value'')))"
| "buildCondition col NotIn v =
     (case v of
        Some (SqlArray vs) \<Rightarrow>
          (case escapeValue v of
             Inl e \<Rightarrow> Inl e
           | Inr s \<Rightarrow> Inr (columnStr col @ '' '' @ operator_text NotIn @ '' '' @ s))
      | _ \<Rightarrow> Inl (Error (operator_text NotIn @ '' operator requires an array value'')))"
| "buildCondition col op v =
     (case escapeValue v of
        Inl e \<Rightarrow> Inl e
      | Inr s \<Rightarrow> Inr (columnStr col @ '' '' @ operator_text op @ '' '' @ s))"

section \<open>The query builder\<close>

datatype joiner = AND | OR

fun joiner_text :: "joiner \<Rightarrow> string" where
  "joiner_text AND = ''AND''"
| "joiner_text OR = ''OR''"

text \<open>
  \<^verbatim>\<open>WhereCondition = {condition, operator, isGroup?}\<close>; an absent \<^verbatim>\<open>isGroup\<close> is \<open>None\<close>.
\<close>

record where_condition =
  w_condition :: string
  w_operator :: joiner
  w_isGroup :: "bool option"

record having_condition =
  h_condition :: string
  h_operator :: joiner

datatype direction = ASC | DESC

fun direction_text :: "direction \<Rightarrow> string" where
  "direction_text ASC = ''ASC''"
| "direction_text DESC = ''DESC''"

record order_spec =
  o_column :: column
  o_direction :: direction

datatype join_type = INNER | LEFT | RIGHT | FULL | CROSS

fun join_type_text :: "join_type \<Rightarrow> string" where
  "join_type_text INNER = ''INNER''"
| "join_type_text LEFT = ''LEFT''"
| "join_type_text RIGHT = ''RIGHT''"
| "join_type_text FULL = ''FULL''"
| "join_type_text CROSS = ''CROSS''"

record join_clause =
  j_type :: join_type
  j_table :: string
  j_condition :: column
  j_final :: bool

text \<open>
  \<^verbatim>\<open>CTE = {name, query: Query | string}\<close>. A nested builder is rendered with its own
  \<^verbatim>\<open>toSQL()\<close> when the outer query is rendered; it is represented here by the text it
  renders to, which is the value the source reads provided the nested builder is not
  changed between \<^verbatim>\<open>with\<close> and the rendering of the outer query.
\<close>

datatype cte_query = RawSql string | NestedQuery string

record cte =
  cte_name :: string
  cte_query :: cte_query

text \<open>
  The private fields of \<^verbatim>\<open>Query\<close>. \<open>q_client\<close> stands for the ClickHouse client: the
  list of the statements it has been asked to run, oldest first. \<open>q_settings\<close> is the
  \<^verbatim>\<open>Record<string, string>\<close> as its entries in the order in which the keys were added.
\<close>

record query =
  q_select :: "column list"
  q_from :: "string option"
  q_where :: "where_condition list"
  q_groupBy :: "string list"
  q_having :: "having_condition list"
  q_orderBy :: "order_spec list"
  q_limit :: "js_number option"
  q_offset :: "js_number option"
  q_final :: bool
  q_settings :: "(string \<times> string) list"
  q_ctes :: "cte list"
  q_joins :: "join_clause list"
  q_skipNext :: bool
  q_client :: "string list"

definition createQuery :: "string list \<Rightarrow> query" where
  "createQuery client =
     \<lparr>q_select = [], q_from = None, q_where = [], q_groupBy = [], q_having = [],
      q_orderBy = [], q_limit = None, q_offset = None, q_final = False, q_settings = [],
      q_ctes = [], q_joins = [], q_skipNext = False, q_client = client\<rparr>"

text \<open>
  A method that can throw ends in \<open>Returned q'\<close> with the builder's new state, or in
  \<open>Threw e q'\<close> with the exception and the state the builder is left in.
\<close>

datatype 'a outcome = Returned 'a | Threw error 'a

text \<open>The next call of a fluent chain runs only when the previous one returned.\<close>

definition and_then :: "'a outcome \<Rightarrow> ('a \<Rightarrow> 'a outcome) \<Rightarrow> 'a outcome" where
  "and_then r f = (case r of Returned q \<Rightarrow> f q | Threw e q \<Rightarrow> Threw e q)"

definition select :: "column list \<Rightarrow> query \<Rightarrow> query" where
  "select columns q = (if q_skipNext q then q else q\<lparr>q_select := columns\<rparr>)"

definition from_q :: "string \<Rightarrow> bool \<Rightarrow> query \<Rightarrow> query" where
  "from_q table final q = q\<lparr>q_from := Some table, q_final := final\<rparr>"

definition where_q :: "column \<Rightarrow> operator \<Rightarrow> sql_param option \<Rightarrow> query \<Rightarrow> query outcome" where
  "where_q col op v q =
     (if q_skipNext q then Returned q
      else case buildCondition col op v of
             Inl e \<Rightarrow> Threw e q
           | Inr c \<Rightarrow>
               Returned (q\<lparr>q_where := q_where q @
                            [\<lparr>w_condition = c, w_operator = AND, w_isGroup = None\<rparr>]\<rparr>))"

definition andWhere :: "column \<Rightarrow> operator \<Rightarrow> sql_param option \<Rightarrow> query \<Rightarrow> query outcome" where
  "andWhere col op v q =
     (case buildCondition col op v of
        Inl e \<Rightarrow> Threw e q
      | Inr c \<Rightarrow>
          Returned (q\<lparr>q_where := q_where q @
                       [\<lparr>w_condition = c, w_operator = AND, w_isGroup = None\<rparr>]\<rparr>))"

definition orWhere :: "column \<Rightarrow> operator \<Rightarrow> sql_param option \<Rightarrow> query \<Rightarrow> query outcome" where
  "orWhere col op v q =
     (case buildCondition col op v of
        Inl e \<Rightarrow> Threw e q
      | Inr c \<Rightarrow>
          Returned (q\<lparr>q_where := q_where q @
                       [\<lparr>w_condition = c, w_operator = OR, w_isGroup = None\<rparr>]\<rparr>))"

definition groupBy :: "column list \<Rightarrow> query \<Rightarrow> query" where
  "groupBy columns q = q\<lparr>q_groupBy := map columnStr columns\<rparr>"

definition having :: "column \<Rightarrow> operator \<Rightarrow> sql_param option \<Rightarrow> query \<Rightarrow> query outcome" where
  "having col op v q =
     (case buildCondition col op v of
        Inl e \<Rightarrow> Threw e q
      | Inr c \<Rightarrow>
          Returned (q\<lparr>q_having := q_having q @ [\<lparr>h_condition = c, h_operator = AND\<rparr>]\<rparr>))"

definition andHaving :: "column \<Rightarrow> operator \<Rightarrow> sql_param option \<Rightarrow> query \<Rightarrow> query outcome" where
  "andHaving col op v q =
     (case buildCondition col op v of
        Inl e \<Rightarrow> Threw e q
      | Inr c \<Rightarrow>
          Returned (q\<lparr>q_having := q_having q @ [\<lparr>h_condition = c, h_operator = AND\<rparr>]\<rparr>))"

definition orHaving :: "column \<Rightarrow> operator \<Rightarrow> sql_param option \<Rightarrow> query \<Rightarrow> query outcome" where
  "orHaving col op v q =
     (case buildCondition col op v of
        Inl e \<Rightarrow> Threw e q
      | Inr c \<Rightarrow>
          Returned (q\<lparr>q_having := q_having q @ [\<lparr>h_condition = c, h_operator = OR\<rparr>]\<rparr>))"

definition orderBy :: "column \<Rightarrow> direction \<Rightarrow> query \<Rightarrow> query" where
  "orderBy col dir q =
     (if q_skipNext q then q
      else q\<lparr>q_orderBy := q_orderBy q @ [\<lparr>o_column = col, o_direction = dir\<rparr>]\<rparr>)"

text \<open>\<^verbatim>\<open>limit(limit, offset?)\<close>: an omitted offset is \<open>None\<close>.\<close>

definition limit :: "js_number \<Rightarrow> js_number option \<Rightarrow> query \<Rightarrow> query" where
  "limit n offset q =
     (let q1 = q\<lparr>q_limit := Some n\<rparr>
      in case offset of None \<Rightarrow> q1 | Some off \<Rightarrow> q1\<lparr>q_offset := Some off\<rparr>)"

text \<open>
  \<^verbatim>\<open>Object.assign(this._settings, settings)\<close>: each entry of the argument, in order,
  overwrites the value of a key already present and is appended otherwise.
\<close>

definition settings :: "(string \<times> string) list \<Rightarrow> query \<Rightarrow> query" where
  "settings s q = q\<lparr>q_settings := fold (\<lambda>(k, v). AList.update k v) s (q_settings q)\<rparr>"

definition with_q :: "string \<Rightarrow> cte_query \<Rightarrow> query \<Rightarrow> query" where
  "with_q name body q = q\<lparr>q_ctes := q_ctes q @ [\<lparr>cte_name = name, cte_query = body\<rparr>]\<rparr>"

definition joinWithType :: "join_type \<Rightarrow> string \<Rightarrow> column \<Rightarrow> bool \<Rightarrow> query \<Rightarrow> query" where
  "joinWithType type table cond final q =
     q\<lparr>q_joins := q_joins q @
          [\<lparr>j_type = type, j_table = table, j_condition = cond, j_final = final\<rparr>]\<rparr>"

definition join :: "string \<Rightarrow> column \<Rightarrow> bool \<Rightarrow> query \<Rightarrow> query" where
  "join table cond final q = joinWithType INNER table cond final q"

definition leftJoin :: "string \<Rightarrow> column \<Rightarrow> bool \<Rightarrow> query \<Rightarrow> query" where
  "leftJoin table cond final q = joinWithType LEFT table cond final q"

definition rightJoin :: "string \<Rightarrow> column \<Rightarrow> bool \<Rightarrow> query \<Rightarrow> query" where
  "rightJoin table cond final q = joinWithType RIGHT table cond final q"

definition fullJoin :: "string \<Rightarrow> column \<Rightarrow> bool \<Rightarrow> query \<Rightarrow> query" where
  "fullJoin table cond final q = joinWithType FULL table cond final q"

definition crossJoin :: "string \<Rightarrow> bool \<Rightarrow> query \<Rightarrow> query" where
  "crossJoin table final q = joinWithType CROSS table (Name []) final q"

definition addWhereCondition :: "where_condition \<Rightarrow> query \<Rightarrow> query" where
  "addWhereCondition c q = q\<lparr>q_where := q_where q @ [c]\<rparr>"

definition if_q :: "bool \<Rightarrow> query \<Rightarrow> query" where
  "if_q cond q = q\<lparr>q_skipNext := \<not> cond\<rparr>"

definition endIf :: "query \<Rightarrow> query" where
  "endIf q = q\<lparr>q_skipNext := False\<rparr>"

text \<open>
  \<^verbatim>\<open>when(condition, callback)\<close>: the callback works on the builder itself; what it
  returns is dropped, what it throws propagates.
\<close>

definition when_q :: "bool \<Rightarrow> (query \<Rightarrow> query outcome) \<Rightarrow> query \<Rightarrow> query outcome" where
  "when_q cond callback q = (if cond then callback q else Returned q)"

section \<open>Rendering\<close>

definition buildWhereConditions :: "where_condition list \<Rightarrow> string" where
  "buildWhereConditions conditions =
     array_join '' ''
       (map_index
          (\<lambda>w i. let condition =
                      (if w_isGroup w = Some True then ''('' @ w_condition w @ '')''
                       else w_condition w)
                 in if i = 0 then condition
                    else joiner_text (w_operator w) @ '' '' @ condition)
          conditions)"

definition cte_statement :: "cte \<Rightarrow> string" where
  "cte_statement c =
     (let queryStr = (case cte_query c of RawSql s \<Rightarrow> s | NestedQuery s \<Rightarrow> s)
      in cte_name c @ '' AS ('' @ queryStr @ '')'')"

definition with_parts :: "query \<Rightarrow> string list" where
  "with_parts q =
     (if q_ctes q \<noteq> [] then [''WITH '' @ array_join '', '' (map cte_statement (q_ctes q))]
      else [])"

definition select_parts :: "query \<Rightarrow> string list" where
  "select_parts q =
     (if q_select q \<noteq> [] then [''SELECT'', array_join '', '' (map columnStr (q_select q))]
      else [''SELECT *''])"

text \<open>
  A join condition is tested for truthiness: the empty string is dropped, an
  \<^verbatim>\<open>Expression\<close> object never is.
\<close>

definition join_statement :: "join_clause \<Rightarrow> string" where
  "join_statement j =
     (let finalClause = (if j_final j then '' FINAL'' else []);
          conditionStr =
            (case j_condition j of
               Name s \<Rightarrow> if s = [] then [] else '' ON '' @ s
             | Expr e \<Rightarrow> '' ON '' @ toString e)
      in join_type_text (j_type j) @ '' JOIN '' @ j_table j @ finalClause @ conditionStr)"

text \<open>\<^verbatim>\<open>if (this._from)\<close> skips both an unset and an empty table name.\<close>

definition from_parts :: "query \<Rightarrow> string list" where
  "from_parts q =
     (case q_from q of
        None \<Rightarrow> []
      | Some table \<Rightarrow>
          if table = [] then []
          else (''FROM '' @ table @ (if q_final q then '' FINAL'' else []))
               # map join_statement (q_joins q))"

definition where_parts :: "query \<Rightarrow> string list" where
  "where_parts q =
     (if q_where q \<noteq> [] then [''WHERE'', buildWhereConditions (q_where q)] else [])"

definition groupBy_parts :: "query \<Rightarrow> string list" where
  "groupBy_parts q =
     (if q_groupBy q \<noteq> [] then [''GROUP BY'', array_join '', '' (q_groupBy q)] else [])"

definition having_parts :: "query \<Rightarrow> string list" where
  "having_parts q =
     (if q_having q \<noteq> []
      then [''HAVING'',
            array_join '' ''
              (map_index
                 (\<lambda>h i. if i = 0 then h_condition h
                        else joiner_text (h_operator h) @ '' '' @ h_condition h)
                 (q_having q))]
      else [])"

definition orderBy_parts :: "query \<Rightarrow> string list" where
  "orderBy_parts q =
     (if q_orderBy q \<noteq> []
      then [''ORDER BY'',
            array_join '', ''
              (map (\<lambda>ob. columnStr (o_column ob) @ '' '' @ direction_text (o_direction ob))
                 (q_orderBy q))]
      else [])"

definition limit_parts :: "query \<Rightarrow> string list" where
  "limit_parts q =
     (case q_limit q of
        None \<Rightarrow> []
      | Some n \<Rightarrow>
          (''LIMIT '' @ number_toString n)
          # (case q_offset q of None \<Rightarrow> [] | Some off \<Rightarrow> [''OFFSET '' @ number_toString off]))"

text \<open>
  \<^verbatim>\<open>Object.entries\<close> lists the keys that are array indices (the canonical decimal text
  of a whole number below \<open>2\<^sup>3\<^sup>2 - 1\<close>) first, in ascending numeric order, and then the
  other keys in the order in which they were added.
\<close>

definition is_digit :: "char \<Rightarrow> bool" where
  "is_digit c \<longleftrightarrow> 48 \<le> (of_char c :: nat) \<and> (of_char c :: nat) \<le> 57"

definition decimal_value :: "string \<Rightarrow> nat" where
  "decimal_value key = foldl (\<lambda>n c. 10 * n + (of_char c - 48)) 0 key"

definition is_array_index :: "string \<Rightarrow> bool" where
  "is_array_index key \<longleftrightarrow>
     key \<noteq> [] \<and> list_all is_digit key \<and> (key = ''0'' \<or> hd key \<noteq> CHR ''0'')
     \<and> decimal_value key < 2 ^ 32 - 1"

definition Object_entries :: "(string \<times> string) list \<Rightarrow> (string \<times> string) list" where
  "Object_entries es =
     sort_key (\<lambda>(key, v). decimal_value key) (filter (\<lambda>(key, v). is_array_index key) es)
     @ filter (\<lambda>(key, v). \<not> is_array_index key) es"

definition settings_parts :: "query \<Rightarrow> string list" where
  "settings_parts q =
     (if q_settings q \<noteq> []
      then [''SETTINGS ''
            @ array_join '', ''
                (map (\<lambda>(key, v). key @ '' = '' @ v) (Object_entries (q_settings q)))]
      else [])"

definition buildQuery :: "query \<Rightarrow> string" where
  "buildQuery q =
     array_join '' ''
       (with_parts q @ select_parts q @ from_parts q @ where_parts q @ groupBy_parts q
        @ having_parts q @ orderBy_parts q @ limit_parts q @ settings_parts q)"

definition toSQL :: "query \<Rightarrow> string" where
  "toSQL q = buildQuery q"

text \<open>
  \<^verbatim>\<open>execute\<close> renders the query and hands it to the client; this is the only place where
  the client is called. The rows it answers with are outside the builder.
\<close>

definition execute :: "query \<Rightarrow> query" where
  "execute q = q\<lparr>q_client := q_client q @ [buildQuery q]\<rparr>"

section \<open>The where-group builder\<close>

text \<open>
  \<^verbatim>\<open>WhereGroupBuilder\<close> keeps a reference to its parent query, a joiner and its own
  conditions. The reference is used for \<^verbatim>\<open>buildCondition\<close>, which reads no field of the
  query, and by \<^verbatim>\<open>end\<close>, which therefore takes the parent's state at the time of the call.
\<close>

record where_group_builder =
  groupOperator :: joiner
  conditions :: "where_condition list"

definition WhereGroupBuilder :: "joiner \<Rightarrow> where_group_builder" where
  "WhereGroupBuilder op = \<lparr>groupOperator = op, conditions = []\<rparr>"

definition whereGroup :: "query \<Rightarrow> where_group_builder" where
  "whereGroup q = WhereGroupBuilder AND"

definition orWhereGroup :: "query \<Rightarrow> where_group_builder" where
  "orWhereGroup q = WhereGroupBuilder OR"

definition wg_where ::
  "column \<Rightarrow> operator \<Rightarrow> sql_param option \<Rightarrow> where_group_builder \<Rightarrow> where_group_builder outcome"
where
  "wg_where col op v g =
     (case buildCondition col op v of
        Inl e \<Rightarrow> Threw e g
      | Inr c \<Rightarrow>
          Returned (g\<lparr>conditions := conditions g @
                       [\<lparr>w_condition = c, w_operator = AND, w_isGroup = None\<rparr>]\<rparr>))"

definition wg_andWhere ::
  "column \<Rightarrow> operator \<Rightarrow> sql_param option \<Rightarrow> where_group_builder \<Rightarrow> where_group_builder outcome"
where
  "wg_andWhere col op v g =
     (case buildCondition col op v of
        Inl e \<Rightarrow> Threw e g
      | Inr c \<Rightarrow>
          Returned (g\<lparr>conditions := conditions g @
                       [\<lparr>w_condition = c, w_operator = AND, w_isGroup = None\<rparr>]\<rparr>))"

definition wg_orWhere ::
  "column \<Rightarrow> operator \<Rightarrow> sql_param option \<Rightarrow> where_group_builder \<Rightarrow> where_group_builder outcome"
where
  "wg_orWhere col op v g =
     (case buildCondition col op v of
        Inl e \<Rightarrow> Threw e g
      | Inr c \<Rightarrow>
          Returned (g\<lparr>conditions := conditions g @
                       [\<lparr>w_condition = c, w_operator = OR, w_isGroup = None\<rparr>]\<rparr>))"

definition groupCondition :: "where_group_builder \<Rightarrow> string" where
  "groupCondition g =
     array_join '' ''
       (map_index
          (\<lambda>c i. if i = 0 then w_condition c
                 else joiner_text (w_operator c) @ '' '' @ w_condition c)
          (conditions g))"

definition wg_end :: "where_group_builder \<Rightarrow> query \<Rightarrow> query" where
  "wg_end g q =
     addWhereCondition
       \<lparr>w_condition = groupCondition g, w_operator = groupOperator g, w_isGroup = Some True\<rparr> q"

section \<open>The cohort query generator\<close>

text \<open>
  \<^verbatim>\<open>range(from, to)\<close> of ramda: the whole numbers from \<open>from\<close> up to, not including,
  \<open>to\<close>; empty when \<open>to \<le> from\<close>.
\<close>

definition range_ramda :: "int \<Rightarrow> int \<Rightarrow> int list" where
  "range_ramda from to = [from..to - 1]"

datatype time_interval = IMinute | IHour | IDay | IWeek | IMonth

datatype criteria = On_or_after | On

text \<open>
  \<^verbatim>\<open>differenceInDays\<close>, \<^verbatim>\<open>differenceInWeeks\<close> and \<^verbatim>\<open>differenceInMonths\<close> come from the
  package \<^verbatim>\<open>date-fns\<close>; the generator is given them as parameters. \<open>'d\<close> is whatever
  \<^verbatim>\<open>getChartStartEndDate\<close> returns for a date.
\<close>

record 'd date_fns =
  differenceInDays :: "'d \<Rightarrow> 'd \<Rightarrow> int"
  differenceInWeeks :: "'d \<Rightarrow> 'd \<Rightarrow> int"
  differenceInMonths :: "'d \<Rightarrow> 'd \<Rightarrow> int"

record 'd dates =
  startDate :: 'd
  endDate :: 'd

fun diffInterval :: "'d date_fns \<Rightarrow> time_interval \<Rightarrow> 'd dates \<Rightarrow> int" where
  "diffInterval lib IMinute ds = differenceInDays lib (endDate ds) (startDate ds)"
| "diffInterval lib IHour ds = differenceInDays lib (endDate ds) (startDate ds)"
| "diffInterval lib IDay ds = differenceInDays lib (endDate ds) (startDate ds)"
| "diffInterval lib IWeek ds = differenceInWeeks lib (endDate ds) (startDate ds)"
| "diffInterval lib IMonth ds = differenceInMonths lib (endDate ds) (startDate ds)"

fun sqlInterval :: "time_interval \<Rightarrow> string" where
  "sqlInterval IMinute = ''DAY''"
| "sqlInterval IHour = ''DAY''"
| "sqlInterval IDay = ''DAY''"
| "sqlInterval IWeek = ''WEEK''"
| "sqlInterval IMonth = ''MONTH''"

fun sqlToStartOf :: "time_interval \<Rightarrow> string" where
  "sqlToStartOf IMinute = ''toDate''"
| "sqlToStartOf IHour = ''toDate''"
| "sqlToStartOf IDay = ''toDate''"
| "sqlToStartOf IWeek = ''toStartOfWeek''"
| "sqlToStartOf IMonth = ''toStartOfMonth''"

definition countCriteria :: "criteria \<Rightarrow> string" where
  "countCriteria c = (if c = On_or_after then ''>='' else ''='')"

definition userListExpr :: "criteria \<Rightarrow> int \<Rightarrow> string" where
  "userListExpr c index =
     ''groupUniqArrayIf(profile_id, x_after_cohort '' @ countCriteria c @ '' ''
     @ number_toString (Integer index) @ '') AS interval_''
     @ number_toString (Integer index) @ ''_users''"

definition userCountExpr :: "int \<Rightarrow> string" where
  "userCountExpr index =
     ''length(interval_'' @ number_toString (Integer index) @ ''_users) AS interval_''
     @ number_toString (Integer index) @ ''_user_count''"

definition usersSelectList :: "criteria \<Rightarrow> int \<Rightarrow> string list" where
  "usersSelectList c d = map (userListExpr c) (range_ramda 0 (d + 1))"

definition countsSelectList :: "int \<Rightarrow> string list" where
  "countsSelectList d = map userCountExpr (range_ramda 0 (d + 1))"

definition usersSelect :: "criteria \<Rightarrow> int \<Rightarrow> string" where
  "usersSelect c d = array_join ('','' @ [CHR 0x0A]) (usersSelectList c d)"

definition countsSelect :: "int \<Rightarrow> string" where
  "countsSelect d = array_join ('','' @ [CHR 0x0A]) (countsSelectList d)"

section \<open>The cohort aggregator\<close>

text \<open>
  The aggregator computes with its numbers; they are modelled as exact rationals, not
  as IEEE doubles. Counts, their sums and their products are whole numbers and agree
  with the doubles below \<open>2\<^sup>5\<^sup>3\<close>. A quotient is exact here and rounded in a double, so a
  percentage rounded to two decimals can differ in its last digit: 23 of 160 is 14.375,
  rounded to 14.38 here, where the doubles give 14.374999999999998 and 14.37.
\<close>

text \<open>
  Modelled from the spec: \<^verbatim>\<open>round\<close> is imported from \<^verbatim>\<open>@openpanel/common\<close>, which is not
  part of the sources. The specification says that rounding is half-up to the stated
  decimal precision.
\<close>

definition round_common :: "rat \<Rightarrow> nat \<Rightarrow> rat" where
  "round_common num decimals =
     of_int \<lfloor>num * 10 ^ decimals + 1 / 2\<rfloor> / 10 ^ decimals"

text \<open>
  A row as the OLAP client returns it: the two named columns and the index signature
  \<^verbatim>\<open>[key: string]: any\<close>, where an absent key reads as \<^verbatim>\<open>undefined\<close>.
\<close>

record cohort_data_row =
  cohort_interval :: string
  total_first_event_count :: rat
  column_value :: "string \<Rightarrow> rat option"

record cohort_row =
  c_cohort_interval :: string
  c_sum :: rat
  c_values :: "rat list"
  c_percentages :: "rat list"

text \<open>\<^verbatim>\<open>row[`interval_${index}_user_count`] || 0\<close>\<close>

definition user_count :: "cohort_data_row \<Rightarrow> int \<Rightarrow> rat" where
  "user_count row index =
     (case column_value row
             (''interval_'' @ number_toString (Integer index) @ ''_user_count'') of
        None \<Rightarrow> 0
      | Some v \<Rightarrow> v)"

definition process_row :: "int \<Rightarrow> cohort_data_row \<Rightarrow> cohort_row" where
  "process_row d row =
     (let sum = total_first_event_count row;
          vals = map (user_count row) (range_ramda 0 (d + 1))
      in \<lparr>c_cohort_interval = cohort_interval row,
          c_sum = sum,
          c_values = vals,
          c_percentages =
            map (\<lambda>v. if sum > 0 then round_common ((v / sum) * 100) 2 else 0) vals\<rparr>)"

record accumulator =
  acc_sum :: rat
  acc_weightedSum :: rat

record average_data =
  totalSum :: rat
  a_values :: "accumulator list"
  a_percentages :: "accumulator list"

definition initial_average_data :: "int \<Rightarrow> average_data" where
  "initial_average_data d =
     \<lparr>totalSum = 0,
      a_values = map (\<lambda>_. \<lparr>acc_sum = 0, acc_weightedSum = 0\<rparr>) (range_ramda 0 (d + 1)),
      a_percentages = map (\<lambda>_. \<lparr>acc_sum = 0, acc_weightedSum = 0\<rparr>) (range_ramda 0 (d + 1))\<rparr>"

text \<open>
  \<^verbatim>\<open>xs.forEach((x, index) => { if (x !== 0) { acc[index].sum += s; acc[index].weightedSum += x * s } })\<close>.
  The accumulator list and \<open>xs\<close> have the same length wherever the source calls this, so
  the index is always in range.
\<close>

definition accumulate :: "rat \<Rightarrow> rat list \<Rightarrow> accumulator list \<Rightarrow> accumulator list" where
  "accumulate s xs accs =
     fold (\<lambda>(index, x) a.
             if x \<noteq> 0
             then a[index := \<lparr>acc_sum = acc_sum (a ! index) + s,
                              acc_weightedSum = acc_weightedSum (a ! index) + x * s\<rparr>]
             else a)
          (enumerate 0 xs) accs"

definition aggregate_row :: "cohort_row \<Rightarrow> average_data \<Rightarrow> average_data" where
  "aggregate_row row avg =
     \<lparr>totalSum = totalSum avg + c_sum row,
      a_values = accumulate (c_sum row) (c_values row) (a_values avg),
      a_percentages = accumulate (c_sum row) (c_percentages row) (a_percentages avg)\<rparr>"

definition processCohortData :: "cohort_data_row list \<Rightarrow> int \<Rightarrow> cohort_row list" where
  "processCohortData data d =
     (if length data = 0 then []
      else
        let processed = map (process_row d) data;
            averageData = fold aggregate_row processed (initial_average_data d);
            averageRow =
              \<lparr>c_cohort_interval = ''Weighted Average'',
               c_sum = round_common (totalSum averageData / of_nat (length processed)) 0,
               c_values =
                 map (\<lambda>a. if acc_sum a > 0
                           then round_common (acc_weightedSum a / acc_sum a) 0 else 0)
                     (a_values averageData),
               c_percentages =
                 map (\<lambda>a. if acc_sum a > 0
                           then round_common (acc_weightedSum a / acc_sum a) 2 else 0)
                     (a_percentages averageData)\<rparr>
        in averageRow # processed)"

section \<open>Notions used to state the properties\<close>

text \<open>
  A single SQL string literal: an opening single quote, then characters of which every
  backslash takes the next character with it, then one single quote that is not taken by
  a backslash, and nothing after it.
\<close>

fun literal_body :: "string \<Rightarrow> bool" where
  "literal_body [] = False"
| "literal_body [c] = (c = quote_char)"
| "literal_body (c # d # cs) =
     (if c = quote_char then False
      else if c = backslash then literal_body cs
      else literal_body (d # cs))"

definition single_literal :: "string \<Rightarrow> bool" where
  "single_literal s = (case s of [] \<Rightarrow> False | c # cs \<Rightarrow> c = quote_char \<and> literal_body cs)"

text \<open>The text of one WHERE condition: a grouped condition is parenthesized.\<close>

definition condition_text :: "where_condition \<Rightarrow> string" where
  "condition_text w =
     (if w_isGroup w = Some True then ''('' @ w_condition w @ '')'' else w_condition w)"

text \<open>
  The weighted average in the specification's words: at an index, the cohorts that
  contribute are those whose value there is not zero; \<open>sum_of_cohort_sums\<close> adds their
  sizes and \<open>sum_of_weighted_values\<close> adds value times size.
\<close>

definition contributing :: "cohort_row list \<Rightarrow> nat \<Rightarrow> cohort_row list" where
  "contributing rows i = filter (\<lambda>r. c_values r ! i \<noteq> 0) rows"

definition sum_of_cohort_sums :: "cohort_row list \<Rightarrow> nat \<Rightarrow> rat" where
  "sum_of_cohort_sums rows i = sum_list (map c_sum (contributing rows i))"

definition sum_of_weighted_values :: "cohort_row list \<Rightarrow> nat \<Rightarrow> rat" where
  "sum_of_weighted_values rows i =
     sum_list (map (\<lambda>r. c_values r ! i * c_sum r) (contributing rows i))"

section \<open>Auxiliary facts\<close>

text \<open>A whole number below \<open>10\<^sup>2\<^sup>1\<close> in absolute value prints as its decimal digits.\<close>

lemma string_of_nat_times_10:
  "0 < m \<Longrightarrow> string_of_nat (10 * m) = string_of_nat m @ ''0''"
  by (subst string_of_nat.simps) (simp add: digit_char_def)

lemma string_of_nat_strip_zeros:
  "0 < s \<Longrightarrow> \<exists>z. string_of_nat s = string_of_nat (strip_zeros s) @ replicate z CHR ''0''"
proof (induction s rule: strip_zeros.induct)
  case (1 s)
  show ?case
  proof (cases "s mod 10 = 0")
    case True
    with "1.prems" have pos: "0 < s div 10" and s: "s = 10 * (s div 10)"
      by auto
    from "1.IH" True "1.prems" pos obtain z where
      z: "string_of_nat (s div 10) = string_of_nat (strip_zeros (s div 10)) @ replicate z CHR ''0''"
      by blast
    have strip: "strip_zeros s = strip_zeros (s div 10)"
      using True "1.prems" by (subst strip_zeros.simps) simp
    have "string_of_nat s = string_of_nat (s div 10) @ ''0''"
      using string_of_nat_times_10 [OF pos] s by simp
    then have "string_of_nat s = string_of_nat (strip_zeros s) @ replicate (Suc z) CHR ''0''"
      by (simp add: z strip replicate_append_same)
    then show ?thesis ..
  next
    case False
    then have "strip_zeros s = s"
      by (subst strip_zeros.simps) simp
    then have "string_of_nat s = string_of_nat (strip_zeros s) @ replicate 0 CHR ''0''"
      by simp
    then show ?thesis ..
  qed
qed

lemma string_of_nat_length:
  "s < 10 ^ m \<Longrightarrow> 0 < m \<Longrightarrow> length (string_of_nat s) \<le> m"
proof (induction s arbitrary: m rule: string_of_nat.induct)
  case (1 n)
  show ?case
  proof (cases "n < 10")
    case True
    with "1.prems" show ?thesis
      by (subst string_of_nat.simps) simp
  next
    case False
    with "1.prems" obtain m' where m: "m = Suc m'"
      by (cases m) auto
    from False "1.prems" m have "0 < m'"
      by (cases m') auto
    moreover from "1.prems" m have "n div 10 < 10 ^ m'"
      by (simp add: less_mult_imp_div_less mult.commute)
    ultimately have "length (string_of_nat (n div 10)) \<le> m'"
      using "1.IH" False by blast
    with False m show ?thesis
      by (subst string_of_nat.simps) simp
  qed
qed

lemma number_toString_Integer:
  assumes "\<bar>i\<bar> < 10 ^ 21"
  shows "number_toString (Integer i) = (if i < 0 then ''-'' else []) @ string_of_nat (nat \<bar>i\<bar>)"
proof (cases "i = 0")
  case True
  then show ?thesis
    by (simp add: Integer_def string_of_nat.simps digit_char_def)
next
  case False
  let ?s = "nat \<bar>i\<bar>"
  from False have pos: "0 < ?s"
    by simp
  from string_of_nat_strip_zeros [OF pos] obtain z where
    z: "string_of_nat ?s = string_of_nat (strip_zeros ?s) @ replicate z CHR ''0''"
    by blast
  from assms have "?s < 10 ^ 21"
    by (simp add: nat_less_iff)
  then have "length (string_of_nat ?s) \<le> 21"
    by (rule string_of_nat_length) simp
  then have le: "int (length (string_of_nat ?s)) \<le> 21"
    by simp
  have len: "int (length (string_of_nat ?s))
      = int (length (string_of_nat (strip_zeros ?s))) + int z"
    by (subst z) simp
  have "finite_toString ?s (int (length (string_of_nat ?s))) = string_of_nat ?s"
    using le len by (simp add: finite_toString_def Let_def z [symmetric])
  with False show ?thesis
    by (simp add: Integer_def)
qed

lemma array_join_Cons:
  "array_join sep (x # xs) = x @ concat (map (\<lambda>y. sep @ y) xs)"
  by (induction xs arbitrary: x) auto

lemma map_enumerate_pos:
  assumes "\<And>i x. 0 < i \<Longrightarrow> f x i = g x" and "0 < n"
  shows "map (\<lambda>(i, x). f x i) (enumerate n xs) = map g xs"
  using assms(2) by (induction xs arbitrary: n) (auto simp: assms(1))

lemma map_index_Cons:
  assumes "\<And>i x. 0 < i \<Longrightarrow> f x i = g x"
  shows "map_index f (x # xs) = f x 0 # map g xs"
  using map_enumerate_pos [of f g "Suc 0" xs, OF assms]
  by (simp add: map_index_def)

lemma collect_Inl:
  "collect rs = Inl e \<Longrightarrow> Inl e \<in> set rs"
  by (induction rs rule: collect.induct) (auto split: sum.splits)

lemma collect_map_Inr:
  "collect (map Inr xs) = Inr xs"
  by (induction xs) auto

text \<open>The escaper itself only ever fails with the \<^verbatim>\<open>RangeError\<close> of an invalid date.\<close>

lemma escapeValue_error:
  "escapeValue v = Inl e \<Longrightarrow> e = RangeError ''Invalid time value''"
proof (induction v arbitrary: e rule: escapeValue.induct)
  case (2 vs)
  from "2.prems" have "collect (map (\<lambda>v. escapeValue (Some v)) vs) = Inl e"
    by (simp split: sum.splits)
  then have "Inl e \<in> set (map (\<lambda>v. escapeValue (Some v)) vs)"
    by (rule collect_Inl)
  then obtain v where "v \<in> set vs" "escapeValue (Some v) = Inl e"
    by auto
  then show ?case using "2.IH" by blast
next
  case (3 d)
  then show ?case
    by (auto simp: toISOString_def thisTimeValue_def TimeClip_def
        split: js_date.splits sum.splits if_splits)
qed auto

section \<open>Operator and value shape\<close>

lemma buildCondition_Between:
  "(\<exists>e. buildCondition col Between vb = Inl e \<and> InvalidOperatorUsage e)
     \<longleftrightarrow> (\<forall>a b. vb \<noteq> Some (SqlArray [a, b]))"
proof (cases "\<exists>a b. vb = Some (SqlArray [a, b])")
  case True
  then obtain a b where vb: "vb = Some (SqlArray [a, b])" by blast
  have "\<not> InvalidOperatorUsage e" if "buildCondition col Between vb = Inl e" for e
  proof -
    from that vb have "escapeValue (Some a) = Inl e \<or> escapeValue (Some b) = Inl e"
      by (auto split: sum.splits)
    then have "e = RangeError ''Invalid time value''"
      using escapeValue_error by blast
    then show ?thesis by (simp add: InvalidOperatorUsage_def)
  qed
  with vb show ?thesis by blast
next
  case False
  then have "buildCondition col Between vb
      = Inl (Error ''BETWEEN operator requires an array of two values'')"
    by (auto split: option.splits sql_param.splits list.splits)
  with False show ?thesis by (auto simp: InvalidOperatorUsage_def)
qed

lemma buildCondition_In:
  assumes "op = In \<or> op = NotIn"
  shows "(\<exists>e. buildCondition col op vi = Inl e \<and> InvalidOperatorUsage e)
     \<longleftrightarrow> (\<forall>vs. vi \<noteq> Some (SqlArray vs))"
proof (cases "\<exists>vs. vi = Some (SqlArray vs)")
  case True
  then obtain vs where vi: "vi = Some (SqlArray vs)" by blast
  have "\<not> InvalidOperatorUsage e" if "buildCondition col op vi = Inl e" for e
  proof -
    from that vi assms have "escapeValue vi = Inl e"
      by (auto split: sum.splits)
    then have "e = RangeError ''Invalid time value''"
      using escapeValue_error by blast
    then show ?thesis by (simp add: InvalidOperatorUsage_def)
  qed
  with vi show ?thesis by blast
next
  case False
  then have "buildCondition col op vi
      = Inl (Error (operator_text op @ '' operator requires an array value''))"
    using assms by (auto split: option.splits sql_param.splits)
  with False assms show ?thesis by (auto simp: InvalidOperatorUsage_def)
qed

lemma failed_call_frame:
  assumes "buildCondition c op v = Inl e"
  shows "andWhere c op v q = Threw e q" "orWhere c op v q = Threw e q"
    "where_q c op v q = (if q_skipNext q then Returned q else Threw e q)"
    "having c op v q = Threw e q" "andHaving c op v q = Threw e q"
    "orHaving c op v q = Threw e q"
    "wg_where c op v g = Threw e g" "wg_andWhere c op v g = Threw e g"
    "wg_orWhere c op v g = Threw e g"
  using assms
  by (simp_all add: andWhere_def orWhere_def where_q_def having_def andHaving_def
      orHaving_def wg_where_def wg_andWhere_def wg_orWhere_def)

text \<open>
  C2. \<^verbatim>\<open>buildCondition\<close> with \<^verbatim>\<open>BETWEEN\<close> throws an InvalidOperatorUsage error exactly
  when the value is not an array of two elements, and with \<^verbatim>\<open>IN\<close> or \<^verbatim>\<open>NOT IN\<close> exactly
  when the value is not an array. Whenever \<^verbatim>\<open>buildCondition\<close> throws, the builder method
  that called it throws the same error and leaves the builder as it was, the list of
  statements sent to the client included: \<^verbatim>\<open>andWhere\<close>, \<^verbatim>\<open>orWhere\<close>, \<^verbatim>\<open>having\<close>,
  \<^verbatim>\<open>andHaving\<close>, \<^verbatim>\<open>orHaving\<close>, the three methods of the where-group builder, and
  \<^verbatim>\<open>where\<close> (which, while the skip flag is set, returns before it builds anything).
\<close>

theorem invalid_operator_usage:
  "((\<exists>e. buildCondition col Between vb = Inl e \<and> InvalidOperatorUsage e)
      \<longleftrightarrow> (\<forall>a b. vb \<noteq> Some (SqlArray [a, b])))
   \<and> (op = In \<or> op = NotIn \<longrightarrow>
        ((\<exists>e. buildCondition col op vi = Inl e \<and> InvalidOperatorUsage e)
           \<longleftrightarrow> (\<forall>vs. vi \<noteq> Some (SqlArray vs))))
   \<and> (buildCondition c op' v = Inl e \<longrightarrow>
        andWhere c op' v q = Threw e q
      \<and> orWhere c op' v q = Threw e q
      \<and> where_q c op' v q = (if q_skipNext q then Returned q else Threw e q)
      \<and> having c op' v q = Threw e q
      \<and> andHaving c op' v q = Threw e q
      \<and> orHaving c op' v q = Threw e q
      \<and> wg_where c op' v g = Threw e g
      \<and> wg_andWhere c op' v g = Threw e g
      \<and> wg_orWhere c op' v g = Threw e g)"
  using buildCondition_Between [of col vb] buildCondition_In [of op col vi]
    failed_call_frame [of c op' v e]
  by blast

theorem invalid_operator_usage_witness:
  "InvalidOperatorUsage (Error ''BETWEEN operator requires an array of two values'')
   \<and> buildCondition (Name ''a'') Between (Some (SqlArray [SqlNumber (Integer 1)]))
       = Inl (Error ''BETWEEN operator requires an array of two values'')
   \<and> (\<exists>e. buildCondition (Name ''a'') Between
            (Some (SqlArray [SqlNumber (Integer 1), SqlNumber (Integer 2), SqlNumber (Integer 3)])) = Inl e
          \<and> InvalidOperatorUsage e)
   \<and> (\<exists>e. buildCondition (Name ''a'') NotIn (Some (SqlNumber (Integer 1))) = Inl e
          \<and> InvalidOperatorUsage e)
   \<and> where_q (Name ''a'') Between (Some (SqlArray [SqlNumber (Integer 1)])) (createQuery [])
       = Threw (Error ''BETWEEN operator requires an array of two values'') (createQuery [])
   \<and> orHaving (Name ''a'') Between (Some (SqlArray [SqlNumber (Integer 1)])) (createQuery [])
       = Threw (Error ''BETWEEN operator requires an array of two values'') (createQuery [])"
  using invalid_operator_usage
    [of "Name ''a''" "Some (SqlArray [SqlNumber (Integer 1), SqlNumber (Integer 2), SqlNumber (Integer 3)])"
        NotIn "Some (SqlNumber (Integer 1))" "Name ''a''" Between "Some (SqlArray [SqlNumber (Integer 1)])"
        "Error ''BETWEEN operator requires an array of two values''" "createQuery []"
        "WhereGroupBuilder AND"]
  by (simp add: InvalidOperatorUsage_def createQuery_def)

section \<open>\<^verbatim>\<open>where\<close> and \<^verbatim>\<open>andWhere\<close>\<close>

text \<open>
  The two methods differ as soon as the skip flag is set: after \<^verbatim>\<open>if(false)\<close>,
  \<^verbatim>\<open>where('a', '=', 1)\<close> leaves the builder alone and \<^verbatim>\<open>andWhere('a', '=', 1)\<close> appends.
\<close>

theorem where_andWhere_counterexample:
  "where_q (Name ''a'') Eq (Some (SqlNumber (Integer 1))) (if_q False (createQuery []))
   \<noteq> andWhere (Name ''a'') Eq (Some (SqlNumber (Integer 1))) (if_q False (createQuery []))"
  by (simp add: where_q_def andWhere_def if_q_def createQuery_def)

text \<open>
  C4. On every builder whose skip flag is clear, \<^verbatim>\<open>where\<close> and \<^verbatim>\<open>andWhere\<close>
  have the same effect for every column, operator and value: both throw the same error,
  or both append the same condition with joiner \<^verbatim>\<open>AND\<close> at the end of the WHERE sequence.
\<close>

theorem where_andWhere_synonyms:
  "\<not> q_skipNext q \<Longrightarrow>
     where_q col op v q = andWhere col op v q
     \<and> (\<forall>c. buildCondition col op v = Inr c \<longrightarrow>
            andWhere col op v q =
              Returned (q\<lparr>q_where := q_where q @
                          [\<lparr>w_condition = c, w_operator = AND, w_isGroup = None\<rparr>]\<rparr>))"
  by (simp add: where_q_def andWhere_def)

theorem where_andWhere_synonyms_witness:
  "\<not> q_skipNext (createQuery [])
   \<and> where_q (Name ''a'') Eq (Some (SqlNumber (Integer 1))) (createQuery [])
       = andWhere (Name ''a'') Eq (Some (SqlNumber (Integer 1))) (createQuery [])
   \<and> andWhere (Name ''a'') Eq (Some (SqlNumber (Integer 1))) (createQuery [])
       = Returned ((createQuery [])
           \<lparr>q_where := [\<lparr>w_condition = ''a = 1'', w_operator = AND, w_isGroup = None\<rparr>]\<rparr>)"
proof -
  have clear: "\<not> q_skipNext (createQuery [])"
    by (simp add: createQuery_def)
  have built: "buildCondition (Name ''a'') Eq (Some (SqlNumber (Integer 1))) = Inr ''a = 1''"
    by (simp add: columnStr_def number_toString_Integer string_of_nat.simps digit_char_def)
  show ?thesis
    using clear built
      where_andWhere_synonyms [OF clear, of "Name ''a''" Eq "Some (SqlNumber (Integer 1))"]
    by (simp add: createQuery_def)
qed

section \<open>Rendering the WHERE clause\<close>

lemma buildWhereConditions_Cons:
  "buildWhereConditions (c # cs) =
     condition_text c
     @ concat (map (\<lambda>w. '' '' @ joiner_text (w_operator w) @ '' '' @ condition_text w) cs)"
proof -
  let ?f = "\<lambda>w i. let condition =
                      (if w_isGroup w = Some True then ''('' @ w_condition w @ '')''
                       else w_condition w)
                 in if i = 0 then condition
                    else joiner_text (w_operator w) @ '' '' @ condition"
  let ?g = "\<lambda>w. joiner_text (w_operator w) @ '' '' @ condition_text w"
  have "map_index ?f (c # cs) = ?f c 0 # map ?g cs"
    using map_index_Cons [of ?f ?g c cs] by (simp add: condition_text_def)
  then show ?thesis
    by (simp add: buildWhereConditions_def array_join_Cons condition_text_def comp_def)
qed

lemma buildWhereConditions_snoc:
  "cs \<noteq> [] \<Longrightarrow>
     buildWhereConditions (cs @ [w]) =
       buildWhereConditions cs @ '' '' @ joiner_text (w_operator w) @ '' '' @ condition_text w"
  by (cases cs) (simp_all add: buildWhereConditions_Cons)

lemma chain_a_or_b:
  "and_then (where_q (Name ''a'') Eq (Some (SqlNumber (Integer 1))) (createQuery client))
            (orWhere (Name ''b'') Eq (Some (SqlNumber (Integer 2))))
   = Returned ((createQuery client)
       \<lparr>q_where := [\<lparr>w_condition = ''a = 1'', w_operator = AND, w_isGroup = None\<rparr>,
                    \<lparr>w_condition = ''b = 2'', w_operator = OR, w_isGroup = None\<rparr>]\<rparr>)"
  by (simp add: and_then_def where_q_def orWhere_def createQuery_def columnStr_def
      number_toString_Integer string_of_nat.simps digit_char_def)

lemma toSQL_only_where:
  "toSQL ((createQuery client)\<lparr>q_where := c # cs\<rparr>)
     = ''SELECT * WHERE '' @ buildWhereConditions (c # cs)"
  by (simp add: toSQL_def buildQuery_def createQuery_def with_parts_def select_parts_def
      from_parts_def where_parts_def groupBy_parts_def having_parts_def orderBy_parts_def
      limit_parts_def settings_parts_def)

text \<open>
  C5. A non-empty sequence of WHERE conditions renders as the text of the first
  condition, without its joiner, followed for every later condition, in sequence order,
  by a space, that condition's own joiner, a space and its text. On a fresh builder,
  \<^verbatim>\<open>where('a', '=', 1).orWhere('b', '=', 2).toSQL()\<close> is
  \<^verbatim>\<open>SELECT * WHERE a = 1 OR b = 2\<close>.
\<close>

theorem where_conditions_render:
  "buildWhereConditions (c # cs) =
     condition_text c
     @ concat (map (\<lambda>w. '' '' @ joiner_text (w_operator w) @ '' '' @ condition_text w) cs)
   \<and> (\<exists>q. and_then (where_q (Name ''a'') Eq (Some (SqlNumber (Integer 1))) (createQuery client))
                    (orWhere (Name ''b'') Eq (Some (SqlNumber (Integer 2)))) = Returned q
          \<and> toSQL q = ''SELECT * WHERE a = 1 OR b = 2'')"
  by (simp add: buildWhereConditions_Cons chain_a_or_b toSQL_only_where condition_text_def)

theorem where_conditions_render_witness:
  "buildWhereConditions
     [\<lparr>w_condition = ''x > 0'', w_operator = OR, w_isGroup = None\<rparr>,
      \<lparr>w_condition = ''y = 1 OR z = 2'', w_operator = AND, w_isGroup = Some True\<rparr>,
      \<lparr>w_condition = ''u < 3'', w_operator = OR, w_isGroup = Some False\<rparr>]
   = ''x > 0 AND (y = 1 OR z = 2) OR u < 3''"
  using where_conditions_render
    [of "\<lparr>w_condition = ''x > 0'', w_operator = OR, w_isGroup = None\<rparr>"
        "[\<lparr>w_condition = ''y = 1 OR z = 2'', w_operator = AND, w_isGroup = Some True\<rparr>,
          \<lparr>w_condition = ''u < 3'', w_operator = OR, w_isGroup = Some False\<rparr>]" "[]"]
  by (simp add: condition_text_def)

section \<open>Where groups\<close>

lemma groupCondition_Cons:
  "conditions g = c # cs \<Longrightarrow>
     groupCondition g =
       w_condition c
       @ concat (map (\<lambda>w. '' '' @ joiner_text (w_operator w) @ '' '' @ w_condition w) cs)"
proof -
  assume g: "conditions g = c # cs"
  let ?f = "\<lambda>c i. if i = 0 then w_condition c
                 else joiner_text (w_operator c) @ '' '' @ w_condition c"
  let ?g = "\<lambda>w. joiner_text (w_operator w) @ '' '' @ w_condition w"
  have "map_index ?f (c # cs) = ?f c 0 # map ?g cs"
    using map_index_Cons [of ?f ?g c cs] by simp
  then show ?thesis
    by (simp add: groupCondition_def g array_join_Cons comp_def)
qed

lemma group_chain_a_or_b:
  "and_then (wg_where (Name ''a'') Eq (Some (SqlNumber (Integer 1))) (WhereGroupBuilder op))
            (wg_orWhere (Name ''b'') Eq (Some (SqlNumber (Integer 2))))
   = Returned \<lparr>groupOperator = op,
        conditions = [\<lparr>w_condition = ''a = 1'', w_operator = AND, w_isGroup = None\<rparr>,
                      \<lparr>w_condition = ''b = 2'', w_operator = OR, w_isGroup = None\<rparr>]\<rparr>"
  by (simp add: and_then_def wg_where_def wg_orWhere_def WhereGroupBuilder_def columnStr_def
      number_toString_Integer string_of_nat.simps digit_char_def)

lemma wg_end_eq:
  "wg_end g q =
     q\<lparr>q_where := q_where q @
          [\<lparr>w_condition = groupCondition g, w_operator = groupOperator g,
            w_isGroup = Some True\<rparr>]\<rparr>"
  by (simp add: wg_end_def addWhereCondition_def)

lemma where_parts_wg_end:
  "q_where q \<noteq> [] \<Longrightarrow>
     where_parts (wg_end g q) =
       [''WHERE'',
        buildWhereConditions (q_where q) @ '' '' @ joiner_text (groupOperator g)
        @ '' ('' @ groupCondition g @ '')'']"
  by (simp add: wg_end_eq where_parts_def buildWhereConditions_snoc condition_text_def)

text \<open>
  C6. \<^verbatim>\<open>whereGroup()\<close> gives a group builder with outer joiner \<^verbatim>\<open>AND\<close>,
  \<^verbatim>\<open>orWhereGroup()\<close> one with outer joiner \<^verbatim>\<open>OR\<close>, both without conditions. \<^verbatim>\<open>end()\<close>
  appends exactly one condition to the parent's WHERE sequence: it is marked as a group,
  carries the outer joiner, and its text is the group's conditions in order, the first
  without its joiner and each later one after its own. After an existing condition the
  group renders parenthesized behind the outer joiner, and
  \<^verbatim>\<open>whereGroup().where('a', '=', 1).orWhere('b', '=', 2).end()\<close> renders
  \<^verbatim>\<open>WHERE <prior> AND (a = 1 OR b = 2)\<close>.
\<close>

theorem where_group_end:
  "wg_end g q =
     q\<lparr>q_where := q_where q @
          [\<lparr>w_condition = groupCondition g, w_operator = groupOperator g,
            w_isGroup = Some True\<rparr>]\<rparr>
   \<and> groupOperator (whereGroup q) = AND \<and> conditions (whereGroup q) = []
   \<and> groupOperator (orWhereGroup q) = OR \<and> conditions (orWhereGroup q) = []
   \<and> (\<forall>c cs. conditions g = c # cs \<longrightarrow>
         groupCondition g =
           w_condition c
           @ concat (map (\<lambda>w. '' '' @ joiner_text (w_operator w) @ '' '' @ w_condition w) cs))
   \<and> (q_where q \<noteq> [] \<longrightarrow>
         where_parts (wg_end g q) =
           [''WHERE'',
            buildWhereConditions (q_where q) @ '' '' @ joiner_text (groupOperator g)
            @ '' ('' @ groupCondition g @ '')''])
   \<and> (q_where q \<noteq> [] \<longrightarrow>
         (\<exists>g'. and_then (wg_where (Name ''a'') Eq (Some (SqlNumber (Integer 1))) (whereGroup q))
                        (wg_orWhere (Name ''b'') Eq (Some (SqlNumber (Integer 2)))) = Returned g'
              \<and> where_parts (wg_end g' q) =
                  [''WHERE'', buildWhereConditions (q_where q) @ '' AND (a = 1 OR b = 2)'']))"
proof -
  have ex: "groupCondition \<lparr>groupOperator = AND,
        conditions = [\<lparr>w_condition = ''a = 1'', w_operator = AND, w_isGroup = None\<rparr>,
                      \<lparr>w_condition = ''b = 2'', w_operator = OR, w_isGroup = None\<rparr>]\<rparr>
      = ''a = 1 OR b = 2''"
    by (simp add: groupCondition_Cons)
  show ?thesis
    apply (intro conjI allI impI)
    subgoal by (rule wg_end_eq)
    subgoal by (simp add: whereGroup_def WhereGroupBuilder_def)
    subgoal by (simp add: whereGroup_def WhereGroupBuilder_def)
    subgoal by (simp add: orWhereGroup_def WhereGroupBuilder_def)
    subgoal by (simp add: orWhereGroup_def WhereGroupBuilder_def)
    subgoal by (rule groupCondition_Cons)
    subgoal by (rule where_parts_wg_end)
    subgoal by (simp add: whereGroup_def group_chain_a_or_b where_parts_wg_end ex)
    done
qed

theorem where_group_end_witness:
  "q_where ((createQuery [])
      \<lparr>q_where := [\<lparr>w_condition = ''p = 0'', w_operator = AND, w_isGroup = None\<rparr>]\<rparr>) \<noteq> []
   \<and> where_parts (wg_end
      \<lparr>groupOperator = OR,
        conditions = [\<lparr>w_condition = ''a = 1'', w_operator = OR, w_isGroup = None\<rparr>,
                      \<lparr>w_condition = ''b = 2'', w_operator = AND, w_isGroup = None\<rparr>]\<rparr>
      ((createQuery [])
         \<lparr>q_where := [\<lparr>w_condition = ''p = 0'', w_operator = AND, w_isGroup = None\<rparr>]\<rparr>))
   = [''WHERE'', ''p = 0 OR (a = 1 AND b = 2)'']"
proof -
  let ?g = "\<lparr>groupOperator = OR,
        conditions = [\<lparr>w_condition = ''a = 1'', w_operator = OR, w_isGroup = None\<rparr>,
                      \<lparr>w_condition = ''b = 2'', w_operator = AND, w_isGroup = None\<rparr>]\<rparr>"
  let ?q = "(createQuery [])
         \<lparr>q_where := [\<lparr>w_condition = ''p = 0'', w_operator = AND, w_isGroup = None\<rparr>]\<rparr>"
  have ne: "q_where ?q \<noteq> []"
    by simp
  have "where_parts (wg_end ?g ?q) =
           [''WHERE'',
            buildWhereConditions (q_where ?q) @ '' '' @ joiner_text (groupOperator ?g)
            @ '' ('' @ groupCondition ?g @ '')'']"
    using where_group_end [of ?g ?q] ne by blast
  moreover have "buildWhereConditions (q_where ?q) = ''p = 0''"
    by (simp add: buildWhereConditions_Cons condition_text_def)
  moreover have "groupCondition ?g = ''a = 1 AND b = 2''"
    by (simp add: groupCondition_Cons)
  ultimately show ?thesis
    using ne by simp
qed

section \<open>Limit and offset\<close>

lemma limit_twice:
  "limit n None (limit m (Some off) q) = q\<lparr>q_limit := Some n, q_offset := Some off\<rparr>"
  by (simp add: limit_def)

lemma parts_limit_frame:
  "with_parts (q\<lparr>q_limit := l, q_offset := off\<rparr>) = with_parts q"
  "select_parts (q\<lparr>q_limit := l, q_offset := off\<rparr>) = select_parts q"
  "from_parts (q\<lparr>q_limit := l, q_offset := off\<rparr>) = from_parts q"
  "where_parts (q\<lparr>q_limit := l, q_offset := off\<rparr>) = where_parts q"
  "groupBy_parts (q\<lparr>q_limit := l, q_offset := off\<rparr>) = groupBy_parts q"
  "having_parts (q\<lparr>q_limit := l, q_offset := off\<rparr>) = having_parts q"
  "orderBy_parts (q\<lparr>q_limit := l, q_offset := off\<rparr>) = orderBy_parts q"
  "settings_parts (q\<lparr>q_limit := l, q_offset := off\<rparr>) = settings_parts q"
  by (simp_all add: with_parts_def select_parts_def from_parts_def where_parts_def
      groupBy_parts_def having_parts_def orderBy_parts_def settings_parts_def
      split: option.splits)

text \<open>
  C10. \<^verbatim>\<open>limit(n)\<close> without an offset changes the limit field to \<open>n\<close> and no other field
  of the builder. After \<^verbatim>\<open>limit(m, o)\<close> the offset \<open>o\<close> is therefore still set, and the
  rendered statement has \<^verbatim>\<open>LIMIT n\<close> followed by \<^verbatim>\<open>OFFSET o\<close> between the unchanged parts
  before it and the settings after it.
\<close>

theorem limit_without_offset:
  "limit n None q = q\<lparr>q_limit := Some n\<rparr>
   \<and> q_offset (limit n None (limit m (Some off) q)) = Some off
   \<and> buildQuery (limit n None (limit m (Some off) q)) =
       array_join '' ''
         (with_parts q @ select_parts q @ from_parts q @ where_parts q @ groupBy_parts q
          @ having_parts q @ orderBy_parts q
          @ [''LIMIT '' @ number_toString n, ''OFFSET '' @ number_toString off]
          @ settings_parts q)"
proof -
  have "limit n None q = q\<lparr>q_limit := Some n\<rparr>"
    by (simp add: limit_def)
  moreover have "q_offset (limit n None (limit m (Some off) q)) = Some off"
    by (simp add: limit_twice)
  moreover have "limit_parts (q\<lparr>q_limit := Some n, q_offset := Some off\<rparr>)
      = [''LIMIT '' @ number_toString n, ''OFFSET '' @ number_toString off]"
    by (simp add: limit_parts_def)
  then have "buildQuery (limit n None (limit m (Some off) q)) =
       array_join '' ''
         (with_parts q @ select_parts q @ from_parts q @ where_parts q @ groupBy_parts q
          @ having_parts q @ orderBy_parts q
          @ [''LIMIT '' @ number_toString n, ''OFFSET '' @ number_toString off]
          @ settings_parts q)"
    unfolding limit_twice buildQuery_def parts_limit_frame by simp
  ultimately show ?thesis by blast
qed

theorem limit_without_offset_witness:
  "toSQL (limit (Integer 5) None (limit (Integer 10) (Some (Integer 20)) (createQuery [])))
     = ''SELECT * LIMIT 5 OFFSET 20''"
  using limit_without_offset [of "Integer 5" "createQuery []" "Integer 10" "Integer 20"]
  by (simp add: toSQL_def createQuery_def with_parts_def select_parts_def from_parts_def
      where_parts_def groupBy_parts_def having_parts_def orderBy_parts_def
      settings_parts_def number_toString_Integer string_of_nat.simps digit_char_def)

section \<open>The skip flag\<close>

lemma skipped_calls:
  assumes "q_skipNext q"
  shows "select cols q = q" "where_q c op v q = Returned q" "orderBy c dir q = q"
  using assms by (simp_all add: select_def where_q_def orderBy_def)

lemma condition_calls:
  assumes "buildCondition c op v = Inr cond"
  shows "andWhere c op v q =
           Returned (q\<lparr>q_where := q_where q @
                       [\<lparr>w_condition = cond, w_operator = AND, w_isGroup = None\<rparr>]\<rparr>)"
    "orWhere c op v q =
           Returned (q\<lparr>q_where := q_where q @
                       [\<lparr>w_condition = cond, w_operator = OR, w_isGroup = None\<rparr>]\<rparr>)"
    "having c op v q =
           Returned (q\<lparr>q_having := q_having q @ [\<lparr>h_condition = cond, h_operator = AND\<rparr>]\<rparr>)"
    "andHaving c op v q =
           Returned (q\<lparr>q_having := q_having q @ [\<lparr>h_condition = cond, h_operator = AND\<rparr>]\<rparr>)"
    "orHaving c op v q =
           Returned (q\<lparr>q_having := q_having q @ [\<lparr>h_condition = cond, h_operator = OR\<rparr>]\<rparr>)"
  using assms by (simp_all add: andWhere_def orWhere_def having_def andHaving_def orHaving_def)

lemma join_calls:
  "join t jc f q =
     q\<lparr>q_joins := q_joins q @ [\<lparr>j_type = INNER, j_table = t, j_condition = jc, j_final = f\<rparr>]\<rparr>"
  "leftJoin t jc f q =
     q\<lparr>q_joins := q_joins q @ [\<lparr>j_type = LEFT, j_table = t, j_condition = jc, j_final = f\<rparr>]\<rparr>"
  "rightJoin t jc f q =
     q\<lparr>q_joins := q_joins q @ [\<lparr>j_type = RIGHT, j_table = t, j_condition = jc, j_final = f\<rparr>]\<rparr>"
  "fullJoin t jc f q =
     q\<lparr>q_joins := q_joins q @ [\<lparr>j_type = FULL, j_table = t, j_condition = jc, j_final = f\<rparr>]\<rparr>"
  "crossJoin t f q =
     q\<lparr>q_joins := q_joins q @
          [\<lparr>j_type = CROSS, j_table = t, j_condition = Name [], j_final = f\<rparr>]\<rparr>"
  by (simp_all add: join_def leftJoin_def rightJoin_def fullJoin_def crossJoin_def
      joinWithType_def)

lemma select_after_endIf:
  "select [Name ''y''] (endIf (select [Name ''x''] (if_q False q0)))
     = q0\<lparr>q_skipNext := False, q_select := [Name ''y'']\<rparr>"
  by (simp add: select_def endIf_def if_q_def)

lemma select_parts_y:
  "select_parts (q0\<lparr>q_skipNext := False, q_select := [Name ''y'']\<rparr>) = [''SELECT'', ''y'']"
  by (simp add: select_parts_def columnStr_def)

lemma toSQL_select_y:
  "toSQL ((createQuery client)\<lparr>q_skipNext := False, q_select := [Name ''y'']\<rparr>) = ''SELECT y''"
  by (simp add: toSQL_def buildQuery_def createQuery_def with_parts_def select_parts_def
      from_parts_def where_parts_def groupBy_parts_def having_parts_def orderBy_parts_def
      limit_parts_def settings_parts_def columnStr_def)

text \<open>
  C3. While the skip flag is set, \<^verbatim>\<open>select\<close>, \<^verbatim>\<open>where\<close> and \<^verbatim>\<open>orderBy\<close> return the
  builder unchanged. Every other method does then what it always does: \<^verbatim>\<open>from\<close> sets
  table and FINAL flag; \<^verbatim>\<open>andWhere\<close>, \<^verbatim>\<open>orWhere\<close>, \<^verbatim>\<open>having\<close>, \<^verbatim>\<open>andHaving\<close> and
  \<^verbatim>\<open>orHaving\<close> append the condition they built; \<^verbatim>\<open>groupBy\<close>, \<^verbatim>\<open>limit\<close>, \<^verbatim>\<open>settings\<close>
  and \<^verbatim>\<open>with\<close> set or extend their fields; the five join methods append a join; the end
  of a where group appends its grouped condition; \<^verbatim>\<open>when\<close> runs its callback exactly
  when its condition holds. \<^verbatim>\<open>if(false)\<close> sets the flag and
  \<^verbatim>\<open>endIf\<close> clears it whatever it was, so that
  \<^verbatim>\<open>if(false).select(['x']).endIf().select(['y'])\<close> leaves \<^verbatim>\<open>y\<close> as the selection and a
  fresh builder renders \<^verbatim>\<open>SELECT y\<close>.
\<close>

theorem skip_flag_three_methods:
  "q_skipNext q \<Longrightarrow>
     select cols q = q
   \<and> where_q c op v q = Returned q
   \<and> orderBy c dir q = q
   \<and> from_q t f q = q\<lparr>q_from := Some t, q_final := f\<rparr>
   \<and> (\<forall>cond. buildCondition c op v = Inr cond \<longrightarrow>
         andWhere c op v q =
           Returned (q\<lparr>q_where := q_where q @
                       [\<lparr>w_condition = cond, w_operator = AND, w_isGroup = None\<rparr>]\<rparr>)
       \<and> orWhere c op v q =
           Returned (q\<lparr>q_where := q_where q @
                       [\<lparr>w_condition = cond, w_operator = OR, w_isGroup = None\<rparr>]\<rparr>)
       \<and> having c op v q =
           Returned (q\<lparr>q_having := q_having q @ [\<lparr>h_condition = cond, h_operator = AND\<rparr>]\<rparr>)
       \<and> andHaving c op v q =
           Returned (q\<lparr>q_having := q_having q @ [\<lparr>h_condition = cond, h_operator = AND\<rparr>]\<rparr>)
       \<and> orHaving c op v q =
           Returned (q\<lparr>q_having := q_having q @ [\<lparr>h_condition = cond, h_operator = OR\<rparr>]\<rparr>))
   \<and> groupBy cols q = q\<lparr>q_groupBy := map columnStr cols\<rparr>
   \<and> limit n None q = q\<lparr>q_limit := Some n\<rparr>
   \<and> limit n (Some off) q = q\<lparr>q_limit := Some n, q_offset := Some off\<rparr>
   \<and> settings s q = q\<lparr>q_settings := fold (\<lambda>(k, v). AList.update k v) s (q_settings q)\<rparr>
   \<and> with_q name body q = q\<lparr>q_ctes := q_ctes q @ [\<lparr>cte_name = name, cte_query = body\<rparr>]\<rparr>
   \<and> join t jc f q =
       q\<lparr>q_joins := q_joins q @
            [\<lparr>j_type = INNER, j_table = t, j_condition = jc, j_final = f\<rparr>]\<rparr>
   \<and> leftJoin t jc f q =
       q\<lparr>q_joins := q_joins q @
            [\<lparr>j_type = LEFT, j_table = t, j_condition = jc, j_final = f\<rparr>]\<rparr>
   \<and> rightJoin t jc f q =
       q\<lparr>q_joins := q_joins q @
            [\<lparr>j_type = RIGHT, j_table = t, j_condition = jc, j_final = f\<rparr>]\<rparr>
   \<and> fullJoin t jc f q =
       q\<lparr>q_joins := q_joins q @
            [\<lparr>j_type = FULL, j_table = t, j_condition = jc, j_final = f\<rparr>]\<rparr>
   \<and> crossJoin t f q =
       q\<lparr>q_joins := q_joins q @
            [\<lparr>j_type = CROSS, j_table = t, j_condition = Name [], j_final = f\<rparr>]\<rparr>
   \<and> wg_end g q =
       q\<lparr>q_where := q_where q @
            [\<lparr>w_condition = groupCondition g, w_operator = groupOperator g,
              w_isGroup = Some True\<rparr>]\<rparr>
   \<and> addWhereCondition w q = q\<lparr>q_where := q_where q @ [w]\<rparr>
   \<and> when_q True callback q = callback q
   \<and> when_q False callback q = Returned q
   \<and> endIf q = q\<lparr>q_skipNext := False\<rparr>
   \<and> \<not> q_skipNext (endIf q0)
   \<and> q_skipNext (if_q False q0)
   \<and> q_select (select [Name ''y''] (endIf (select [Name ''x''] (if_q False q0)))) = [Name ''y'']
   \<and> select_parts (select [Name ''y''] (endIf (select [Name ''x''] (if_q False q0))))
       = [''SELECT'', ''y'']
   \<and> toSQL (select [Name ''y''] (endIf (select [Name ''x''] (if_q False (createQuery client)))))
       = ''SELECT y''"
  apply (intro conjI allI impI)
  subgoal by (simp add: skipped_calls)
  subgoal by (simp add: skipped_calls)
  subgoal by (simp add: skipped_calls)
  subgoal by (simp add: from_q_def)
  subgoal by (simp add: condition_calls)
  subgoal by (simp add: condition_calls)
  subgoal by (simp add: condition_calls)
  subgoal by (simp add: condition_calls)
  subgoal by (simp add: condition_calls)
  subgoal by (simp add: groupBy_def)
  subgoal by (simp add: limit_def)
  subgoal by (simp add: limit_def)
  subgoal by (simp add: settings_def)
  subgoal by (simp add: with_q_def)
  subgoal by (rule join_calls)
  subgoal by (rule join_calls)
  subgoal by (rule join_calls)
  subgoal by (rule join_calls)
  subgoal by (rule join_calls)
  subgoal by (rule wg_end_eq)
  subgoal by (simp add: addWhereCondition_def)
  subgoal by (simp add: when_q_def)
  subgoal by (simp add: when_q_def)
  subgoal by (simp add: endIf_def)
  subgoal by (simp add: endIf_def)
  subgoal by (simp add: if_q_def)
  subgoal by (simp add: select_after_endIf)
  subgoal by (simp only: select_after_endIf select_parts_y)
  subgoal by (simp only: select_after_endIf toSQL_select_y)
  done

theorem skip_flag_three_methods_witness:
  "q_skipNext (if_q False (createQuery []))
   \<and> select [Name ''x''] (if_q False (createQuery [])) = if_q False (createQuery [])
   \<and> where_q (Name ''a'') Eq (Some (SqlNumber (Integer 1))) (if_q False (createQuery []))
       = Returned (if_q False (createQuery []))
   \<and> orderBy (Name ''a'') DESC (if_q False (createQuery [])) = if_q False (createQuery [])
   \<and> q_from (from_q ''t'' True (if_q False (createQuery []))) = Some ''t''
   \<and> toSQL (select [Name ''y''] (endIf (select [Name ''x''] (if_q False (createQuery [])))))
       = ''SELECT y''"
proof -
  have set: "q_skipNext (if_q False (createQuery []))"
    by (simp add: if_q_def)
  note main = skip_flag_three_methods [OF set, where cols = "[Name ''x'']"
        and c = "Name ''a''" and op = Eq and v = "Some (SqlNumber (Integer 1))" and dir = DESC
        and t = "''t''" and f = True and n = "Integer 0" and off = "Integer 0" and s = "[]" and name = "''n''"
        and body = "RawSql ''s''" and jc = "Name ''c''" and g = "WhereGroupBuilder AND"
        and w = "\<lparr>w_condition = ''a'', w_operator = AND, w_isGroup = None\<rparr>"
        and callback = Returned
        and ?q0.0 = "createQuery []" and client = "[]"]
  from main have a: "select [Name ''x''] (if_q False (createQuery [])) = if_q False (createQuery [])
     \<and> where_q (Name ''a'') Eq (Some (SqlNumber (Integer 1))) (if_q False (createQuery []))
         = Returned (if_q False (createQuery []))
     \<and> orderBy (Name ''a'') DESC (if_q False (createQuery [])) = if_q False (createQuery [])"
    by blast
  from main have "from_q ''t'' True (if_q False (createQuery []))
      = (if_q False (createQuery []))\<lparr>q_from := Some ''t'', q_final := True\<rparr>"
    by blast
  then have b: "q_from (from_q ''t'' True (if_q False (createQuery []))) = Some ''t''"
    by simp
  from main have c: "toSQL (select [Name ''y''] (endIf (select [Name ''x''] (if_q False (createQuery [])))))
       = ''SELECT y''"
    by blast
  show ?thesis
    using set a b c by blast
qed

section \<open>Cohort intervals\<close>

lemma upto_nth_0:
  "0 \<le> i \<Longrightarrow> i \<le> d \<Longrightarrow> [0..d] ! nat i = i"
  using nth_upto [of 0 "nat i" d] by simp

text \<open>
  C7. The interval count is \<^verbatim>\<open>differenceInDays(end, start)\<close> for the granularities
  minute, hour and day, \<^verbatim>\<open>differenceInWeeks(end, start)\<close> for week and
  \<^verbatim>\<open>differenceInMonths(end, start)\<close> for month. With \<open>d\<close> the interval count, the
  generator makes one user-list expression and one user-count column for each index
  \<open>0, \<dots>, d\<close>, in this order: \<open>d + 1\<close> of each when \<open>d\<close> is not negative. The expression of
  index \<open>i\<close> compares the lag with \<^verbatim>\<open>>= i\<close> when the criteria is \<^verbatim>\<open>on_or_after\<close> and with
  \<^verbatim>\<open>= i\<close> otherwise.
\<close>

theorem cohort_interval_expressions:
  "diffInterval lib IMinute ds = differenceInDays lib (endDate ds) (startDate ds)
   \<and> diffInterval lib IHour ds = differenceInDays lib (endDate ds) (startDate ds)
   \<and> diffInterval lib IDay ds = differenceInDays lib (endDate ds) (startDate ds)
   \<and> diffInterval lib IWeek ds = differenceInWeeks lib (endDate ds) (startDate ds)
   \<and> diffInterval lib IMonth ds = differenceInMonths lib (endDate ds) (startDate ds)
   \<and> (let d = diffInterval lib iv ds in
        usersSelectList c d = map (userListExpr c) [0..d]
      \<and> countsSelectList d = map userCountExpr [0..d]
      \<and> (0 \<le> d \<longrightarrow> int (length (usersSelectList c d)) = d + 1
                  \<and> int (length (countsSelectList d)) = d + 1)
      \<and> (\<forall>i. 0 \<le> i \<and> i \<le> d \<longrightarrow>
            usersSelectList c d ! nat i =
              ''groupUniqArrayIf(profile_id, x_after_cohort ''
              @ (if c = On_or_after then ''>='' else ''='') @ '' '' @ number_toString (Integer i)
              @ '') AS interval_'' @ number_toString (Integer i) @ ''_users''
          \<and> countsSelectList d ! nat i =
              ''length(interval_'' @ number_toString (Integer i) @ ''_users) AS interval_''
              @ number_toString (Integer i) @ ''_user_count''))"
proof -
  have lists: "usersSelectList c d = map (userListExpr c) [0..d]"
    "countsSelectList d = map userCountExpr [0..d]" for d
    by (simp_all add: usersSelectList_def countsSelectList_def range_ramda_def)
  have len: "int (length (usersSelectList c d)) = d + 1"
    "int (length (countsSelectList d)) = d + 1" if "0 \<le> d" for d
    using that by (simp_all add: lists)
  have nth: "usersSelectList c d ! nat i =
              ''groupUniqArrayIf(profile_id, x_after_cohort ''
              @ (if c = On_or_after then ''>='' else ''='') @ '' '' @ number_toString (Integer i)
              @ '') AS interval_'' @ number_toString (Integer i) @ ''_users''"
    "countsSelectList d ! nat i =
              ''length(interval_'' @ number_toString (Integer i) @ ''_users) AS interval_''
              @ number_toString (Integer i) @ ''_user_count''" if "0 \<le> i" "i \<le> d" for i d
  proof -
    from that have "nat i < length [0..d]" by simp
    with that show "usersSelectList c d ! nat i =
              ''groupUniqArrayIf(profile_id, x_after_cohort ''
              @ (if c = On_or_after then ''>='' else ''='') @ '' '' @ number_toString (Integer i)
              @ '') AS interval_'' @ number_toString (Integer i) @ ''_users''"
      "countsSelectList d ! nat i =
              ''length(interval_'' @ number_toString (Integer i) @ ''_users) AS interval_''
              @ number_toString (Integer i) @ ''_user_count''"
      by (simp_all add: lists upto_nth_0 userListExpr_def userCountExpr_def countCriteria_def
          del: length_upto)
  qed
  show ?thesis
    unfolding Let_def
    apply (intro conjI allI impI)
    subgoal by simp
    subgoal by simp
    subgoal by simp
    subgoal by simp
    subgoal by simp
    subgoal by (rule lists)
    subgoal by (rule lists)
    subgoal by (rule len)
    subgoal by (rule len)
    subgoal by (rule nth) auto
    subgoal by (rule nth) auto
    done
qed

theorem cohort_interval_expressions_witness:
  "(0::int) \<le> 2 \<and> (2::int) \<le> 2
   \<and> diffInterval
        \<lparr>differenceInDays = (\<lambda>e s. e - s), differenceInWeeks = (\<lambda>e s. (e - s) div 7),
          differenceInMonths = (\<lambda>e s. (e - s) div 30)\<rparr>
        IHour \<lparr>startDate = 3, endDate = 5\<rparr> = 2
   \<and> usersSelectList On 2 ! 2
       = ''groupUniqArrayIf(profile_id, x_after_cohort = 2) AS interval_2_users''
   \<and> countsSelectList 2 ! 2 = ''length(interval_2_users) AS interval_2_user_count''
   \<and> length (usersSelectList On 2) = 3"
proof -
  let ?lib = "\<lparr>differenceInDays = (\<lambda>e s. e - s), differenceInWeeks = (\<lambda>e s. (e - s) div 7),
          differenceInMonths = (\<lambda>e s. (e - s) div (30::int))\<rparr>"
  let ?ds = "\<lparr>startDate = 3, endDate = (5::int)\<rparr>"
  have d: "diffInterval ?lib IHour ?ds = 2"
    by simp
  note main = cohort_interval_expressions [of ?lib ?ds IHour On, unfolded Let_def d]
  from main have a: "int (length (usersSelectList On 2)) = 2 + 1"
    by simp
  from main have "\<forall>i. 0 \<le> i \<and> i \<le> 2 \<longrightarrow>
            usersSelectList On 2 ! nat i =
              ''groupUniqArrayIf(profile_id, x_after_cohort ''
              @ (if On = On_or_after then ''>='' else ''='') @ '' '' @ number_toString (Integer i)
              @ '') AS interval_'' @ number_toString (Integer i) @ ''_users''
          \<and> countsSelectList 2 ! nat i =
              ''length(interval_'' @ number_toString (Integer i) @ ''_users) AS interval_''
              @ number_toString (Integer i) @ ''_user_count''"
    by (elim conjE) assumption
  from this [rule_format, of 2] have "usersSelectList On 2 ! nat 2 =
              ''groupUniqArrayIf(profile_id, x_after_cohort ''
              @ (if On = On_or_after then ''>='' else ''='') @ '' '' @ number_toString (Integer 2)
              @ '') AS interval_'' @ number_toString (Integer 2) @ ''_users''
          \<and> countsSelectList 2 ! nat 2 =
              ''length(interval_'' @ number_toString (Integer 2) @ ''_users) AS interval_''
              @ number_toString (Integer 2) @ ''_user_count''"
    by simp
  then have b: "usersSelectList On 2 ! 2
       = ''groupUniqArrayIf(profile_id, x_after_cohort = 2) AS interval_2_users''
     \<and> countsSelectList 2 ! 2 = ''length(interval_2_users) AS interval_2_user_count''"
    by (simp add: number_toString_Integer string_of_nat.simps digit_char_def)
  from a have c: "length (usersSelectList On 2) = 3"
    by linarith
  show ?thesis
    using d b c by simp
qed

section \<open>The aggregator on empty input\<close>

text \<open>
  C9. On an empty row sequence the cohort aggregator returns the empty list: no
  per-cohort rows and no weighted-average row.
\<close>

theorem processCohortData_empty:
  "processCohortData [] d = []"
  by (simp add: processCohortData_def)

theorem processCohortData_empty_witness:
  "processCohortData [] 3 = [] \<and> length (processCohortData [] 3) = 0"
  using processCohortData_empty [of 3] by simp

section \<open>The weighted average\<close>

lemma accumulate_fold:
  "length accs = length xs \<Longrightarrow>
   fold (\<lambda>(index, x) a.
             if x \<noteq> 0
             then a[index := \<lparr>acc_sum = acc_sum (a ! index) + s,
                              acc_weightedSum = acc_weightedSum (a ! index) + x * s\<rparr>]
             else a)
        (enumerate (length pre) xs) (pre @ accs)
   = pre @ map (\<lambda>(x, a). if x \<noteq> 0
                           then \<lparr>acc_sum = acc_sum a + s,
                                 acc_weightedSum = acc_weightedSum a + x * s\<rparr>
                           else a) (zip xs accs)"
proof (induction xs arbitrary: pre accs)
  case Nil
  then show ?case by simp
next
  case (Cons x xs)
  then obtain a accs' where accs: "accs = a # accs'" and len: "length accs' = length xs"
    by (cases accs) auto
  show ?case
  proof (cases "x = 0")
    case True
    with Cons.IH [OF len, of "pre @ [a]"] show ?thesis
      by (simp add: accs)
  next
    case False
    with Cons.IH [OF len, of "pre @ [\<lparr>acc_sum = acc_sum a + s,
                                        acc_weightedSum = acc_weightedSum a + x * s\<rparr>]"]
    show ?thesis
      by (simp add: accs nth_append)
  qed
qed

lemma accumulate_eq:
  assumes "length accs = length xs"
  shows "accumulate s xs accs =
           map (\<lambda>(x, a). if x \<noteq> 0
                          then \<lparr>acc_sum = acc_sum a + s,
                                acc_weightedSum = acc_weightedSum a + x * s\<rparr>
                          else a) (zip xs accs)"
  using accumulate_fold [OF assms, of s "[]"] by (simp add: accumulate_def)

lemma accumulate_length:
  "length accs = length xs \<Longrightarrow> length (accumulate s xs accs) = length accs"
  by (simp add: accumulate_eq)

lemma accumulate_nth:
  "length accs = length xs \<Longrightarrow> i < length accs \<Longrightarrow>
     accumulate s xs accs ! i =
       (if xs ! i \<noteq> 0
        then \<lparr>acc_sum = acc_sum (accs ! i) + s,
              acc_weightedSum = acc_weightedSum (accs ! i) + xs ! i * s\<rparr>
        else accs ! i)"
  by (simp add: accumulate_eq)

lemma fold_accumulate:
  "\<forall>r \<in> set rows. length (c_values r) = length accs \<Longrightarrow>
   fold (\<lambda>r. accumulate (c_sum r) (c_values r)) rows accs =
     map (\<lambda>i. \<lparr>acc_sum = acc_sum (accs ! i) + sum_of_cohort_sums rows i,
                acc_weightedSum = acc_weightedSum (accs ! i) + sum_of_weighted_values rows i\<rparr>)
         [0..<length accs]"
proof (induction rows arbitrary: accs)
  case Nil
  show ?case
    by (rule nth_equalityI)
       (simp_all add: sum_of_cohort_sums_def sum_of_weighted_values_def contributing_def)
next
  case (Cons r rows)
  let ?accs' = "accumulate (c_sum r) (c_values r) accs"
  from Cons.prems have lr: "length accs = length (c_values r)"
    by simp
  then have len: "length ?accs' = length accs"
    by (rule accumulate_length)
  with Cons.prems have "\<forall>r \<in> set rows. length (c_values r) = length ?accs'"
    by simp
  from Cons.IH [OF this] have step:
    "fold (\<lambda>r. accumulate (c_sum r) (c_values r)) (r # rows) accs =
       map (\<lambda>i. \<lparr>acc_sum = acc_sum (?accs' ! i) + sum_of_cohort_sums rows i,
                  acc_weightedSum = acc_weightedSum (?accs' ! i) + sum_of_weighted_values rows i\<rparr>)
           [0..<length accs]"
    by (simp add: len)
  show ?case
    unfolding step
    by (rule nth_equalityI)
       (simp_all add: accumulate_nth [OF lr] sum_of_cohort_sums_def sum_of_weighted_values_def
          contributing_def)
qed

lemma fold_aggregate_row_values:
  "a_values (fold aggregate_row rows avg) =
     fold (\<lambda>r. accumulate (c_sum r) (c_values r)) rows (a_values avg)"
  by (induction rows arbitrary: avg) (simp_all add: aggregate_row_def)

lemma process_row_values_length:
  "length (c_values (process_row d row)) = nat (d + 1)"
  by (simp add: process_row_def range_ramda_def Let_def)

lemma average_accumulators:
  "a_values (fold aggregate_row (map (process_row d) data) (initial_average_data d)) =
     map (\<lambda>i. \<lparr>acc_sum = sum_of_cohort_sums (map (process_row d) data) i,
                acc_weightedSum = sum_of_weighted_values (map (process_row d) data) i\<rparr>)
         [0..<nat (d + 1)]"
proof -
  have len: "length (a_values (initial_average_data d)) = nat (d + 1)"
    by (simp add: initial_average_data_def range_ramda_def)
  have zero: "a_values (initial_average_data d) ! i = \<lparr>acc_sum = 0, acc_weightedSum = 0\<rparr>"
    if "i < nat (d + 1)" for i
    using that by (simp add: initial_average_data_def range_ramda_def)
  have "\<forall>r \<in> set (map (process_row d) data).
          length (c_values r) = length (a_values (initial_average_data d))"
    by (auto simp: len process_row_values_length)
  from fold_accumulate [OF this] show ?thesis
    unfolding fold_aggregate_row_values len
    by (simp add: zero)
qed

lemma average_values:
  assumes "data \<noteq> []"
  shows "c_values (hd (processCohortData data d)) =
           map (\<lambda>i. if sum_of_cohort_sums (map (process_row d) data) i > 0
                     then round_common
                            (sum_of_weighted_values (map (process_row d) data) i
                             / sum_of_cohort_sums (map (process_row d) data) i) 0
                     else 0)
               [0..<nat (d + 1)]"
    and "tl (processCohortData data d) = map (process_row d) data"
  using assms
  by (simp_all add: processCohortData_def Let_def average_accumulators comp_def)

lemma floor_rat_numeral:
  "\<lfloor>(numeral a / numeral b :: rat)\<rfloor> = numeral a div numeral b"
  "\<lfloor>(1 / numeral b :: rat)\<rfloor> = 1 div numeral b"
  using floor_divide_of_int_eq [of "numeral a" "numeral b", where ?'a = rat]
    floor_divide_of_int_eq [of 1 "numeral b", where ?'a = rat]
  by simp_all

lemma example_rows:
  "map (process_row 1)
     [\<lparr>cohort_interval = ''a'', total_first_event_count = 10,
        column_value = [''interval_0_user_count'' \<mapsto> 5, ''interval_1_user_count'' \<mapsto> 0]\<rparr>,
      \<lparr>cohort_interval = ''b'', total_first_event_count = 20,
        column_value = [''interval_0_user_count'' \<mapsto> 0, ''interval_1_user_count'' \<mapsto> 10]\<rparr>]
   = [\<lparr>c_cohort_interval = ''a'', c_sum = 10, c_values = [5, 0], c_percentages = [50, 0]\<rparr>,
      \<lparr>c_cohort_interval = ''b'', c_sum = 20, c_values = [0, 10], c_percentages = [0, 50]\<rparr>]"
  by (simp add: process_row_def range_ramda_def upto.simps user_count_def Let_def number_toString_Integer
      string_of_nat.simps digit_char_def round_common_def floor_rat_numeral)

lemma sum_list_positive:
  "xs \<noteq> [] \<Longrightarrow> \<forall>x \<in> set xs. 0 < f x \<Longrightarrow> 0 < sum_list (map f xs :: rat list)"
proof (induction xs)
  case Nil
  then show ?case by simp
next
  case (Cons a xs)
  show ?case
  proof (cases "xs = []")
    case True
    with Cons.prems show ?thesis by simp
  next
    case False
    with Cons have "0 < f a" "0 < sum_list (map f xs)"
      by simp_all
    then show ?thesis by simp
  qed
qed

lemma process_row_sum:
  "c_sum (process_row d row) = total_first_event_count row"
  by (simp add: process_row_def Let_def)

lemma contributing_sum_positive:
  assumes "\<forall>row \<in> set data. 0 < total_first_event_count row"
    and "contributing (map (process_row d) data) i \<noteq> []"
  shows "0 < sum_of_cohort_sums (map (process_row d) data) i"
  unfolding sum_of_cohort_sums_def
proof (rule sum_list_positive [OF assms(2)])
  show "\<forall>r \<in> set (contributing (map (process_row d) data) i). 0 < c_sum r"
    using assms(1) by (auto simp: contributing_def process_row_sum)
qed

lemma example_average:
  "c_values (hd (processCohortData
         [\<lparr>cohort_interval = ''a'', total_first_event_count = 10,
            column_value = [''interval_0_user_count'' \<mapsto> 5, ''interval_1_user_count'' \<mapsto> 0]\<rparr>,
          \<lparr>cohort_interval = ''b'', total_first_event_count = 20,
            column_value = [''interval_0_user_count'' \<mapsto> 0, ''interval_1_user_count'' \<mapsto> 10]\<rparr>]
         1)) = [5, 10]"
proof -
  have idx: "[0..<nat (1 + 1)] = [0, 1]"
    by code_simp
  show ?thesis
    unfolding average_values(1) [OF list.distinct(2)] example_rows idx
    by (simp add: sum_of_cohort_sums_def sum_of_weighted_values_def contributing_def
        round_common_def floor_rat_numeral)
qed

text \<open>
  C8. On a non-empty input the aggregator returns the weighted-average row followed by
  the per-cohort rows. At each index \<open>0, \<dots>, d\<close> the value of the weighted-average row is
  computed from the cohorts whose value at that index is not zero: with \<open>sum\<close> the sum of
  their sizes and \<open>weightedSum\<close> the sum of their values times their sizes, it is
  \<open>round (weightedSum / sum) 0\<close> when \<open>sum\<close> is positive and \<open>0\<close> otherwise; in
  particular it is \<open>0\<close> when no cohort contributes, and when every cohort has a
  positive size it is \<open>round (weightedSum / sum) 0\<close> as soon as one contributes. For
  the cohorts
  \<^verbatim>\<open>[{sum: 10, values: [5, 0]}, {sum: 20, values: [0, 10]}]\<close> the weighted average is
  \<open>5\<close> at index 0 and \<open>10\<close> at index 1.
\<close>

theorem weighted_average_excludes_zeros:
  "data \<noteq> [] \<Longrightarrow>
     tl (processCohortData data d) = map (process_row d) data
   \<and> c_values (hd (processCohortData data d)) =
       map (\<lambda>i. if sum_of_cohort_sums (map (process_row d) data) i > 0
                 then round_common
                        (sum_of_weighted_values (map (process_row d) data) i
                         / sum_of_cohort_sums (map (process_row d) data) i) 0
                 else 0)
           [0..<nat (d + 1)]
   \<and> (\<forall>i < nat (d + 1).
         contributing (map (process_row d) data) i = [] \<longrightarrow>
           c_values (hd (processCohortData data d)) ! i = 0)
   \<and> ((\<forall>row \<in> set data. 0 < total_first_event_count row) \<longrightarrow>
        (\<forall>i < nat (d + 1).
           contributing (map (process_row d) data) i \<noteq> [] \<longrightarrow>
             c_values (hd (processCohortData data d)) ! i =
               round_common
                 (sum_of_weighted_values (map (process_row d) data) i
                  / sum_of_cohort_sums (map (process_row d) data) i) 0))
   \<and> c_values (hd (processCohortData
         [\<lparr>cohort_interval = ''a'', total_first_event_count = 10,
            column_value = [''interval_0_user_count'' \<mapsto> 5, ''interval_1_user_count'' \<mapsto> 0]\<rparr>,
          \<lparr>cohort_interval = ''b'', total_first_event_count = 20,
            column_value = [''interval_0_user_count'' \<mapsto> 0, ''interval_1_user_count'' \<mapsto> 10]\<rparr>]
         1)) = [5, 10]"
proof -
  assume data: "data \<noteq> []"
  have none: "c_values (hd (processCohortData data d)) ! i = 0"
    if "i < nat (d + 1)" "contributing (map (process_row d) data) i = []" for i
    using that by (simp add: average_values(1) [OF data] sum_of_cohort_sums_def)
  have some: "c_values (hd (processCohortData data d)) ! i =
               round_common
                 (sum_of_weighted_values (map (process_row d) data) i
                  / sum_of_cohort_sums (map (process_row d) data) i) 0"
    if "\<forall>row \<in> set data. 0 < total_first_event_count row" "i < nat (d + 1)"
      "contributing (map (process_row d) data) i \<noteq> []" for i
    using that(2) contributing_sum_positive [OF that(1,3)]
    by (simp add: average_values(1) [OF data])
  have "c_values (hd (processCohortData
         [\<lparr>cohort_interval = ''a'', total_first_event_count = 10,
            column_value = [''interval_0_user_count'' \<mapsto> 5, ''interval_1_user_count'' \<mapsto> 0]\<rparr>,
          \<lparr>cohort_interval = ''b'', total_first_event_count = 20,
            column_value = [''interval_0_user_count'' \<mapsto> 0, ''interval_1_user_count'' \<mapsto> 10]\<rparr>]
         1)) = [5, 10]"
    by (rule example_average)
  with average_values [OF data, of d] none some show ?thesis
    by blast
qed

theorem weighted_average_excludes_zeros_witness:
  "[\<lparr>cohort_interval = ''c'', total_first_event_count = 4,
      column_value = [''interval_0_user_count'' \<mapsto> 3]\<rparr>,
    \<lparr>cohort_interval = ''d'', total_first_event_count = 6,
      column_value = [''interval_0_user_count'' \<mapsto> 0, ''interval_1_user_count'' \<mapsto> 1]\<rparr>,
    \<lparr>cohort_interval = ''e'', total_first_event_count = 2,
      column_value = [''interval_0_user_count'' \<mapsto> 2, ''interval_1_user_count'' \<mapsto> 2]\<rparr>]
     \<noteq> []
   \<and> c_values (hd (processCohortData
       [\<lparr>cohort_interval = ''c'', total_first_event_count = 4,
          column_value = [''interval_0_user_count'' \<mapsto> 3]\<rparr>,
        \<lparr>cohort_interval = ''d'', total_first_event_count = 6,
          column_value = [''interval_0_user_count'' \<mapsto> 0, ''interval_1_user_count'' \<mapsto> 1]\<rparr>,
        \<lparr>cohort_interval = ''e'', total_first_event_count = 2,
          column_value = [''interval_0_user_count'' \<mapsto> 2, ''interval_1_user_count'' \<mapsto> 2]\<rparr>]
       2)) = [3, 1, 0]"
proof -
  let ?data = "[\<lparr>cohort_interval = ''c'', total_first_event_count = 4,
          column_value = [''interval_0_user_count'' \<mapsto> 3]\<rparr>,
        \<lparr>cohort_interval = ''d'', total_first_event_count = 6,
          column_value = [''interval_0_user_count'' \<mapsto> 0, ''interval_1_user_count'' \<mapsto> 1]\<rparr>,
        \<lparr>cohort_interval = ''e'', total_first_event_count = 2,
          column_value = [''interval_0_user_count'' \<mapsto> 2, ''interval_1_user_count'' \<mapsto> 2]\<rparr>]"
  have ne: "?data \<noteq> []"
    by simp
  have pos: "\<forall>row \<in> set ?data. 0 < total_first_event_count row"
    by simp
  have rows: "map (process_row 2) ?data
      = [\<lparr>c_cohort_interval = ''c'', c_sum = 4, c_values = [3, 0, 0],
           c_percentages = [75, 0, 0]\<rparr>,
         \<lparr>c_cohort_interval = ''d'', c_sum = 6, c_values = [0, 1, 0],
           c_percentages = [0, 1667 / 100, 0]\<rparr>,
         \<lparr>c_cohort_interval = ''e'', c_sum = 2, c_values = [2, 2, 0],
           c_percentages = [100, 100, 0]\<rparr>]"
    by (simp add: process_row_def range_ramda_def upto.simps user_count_def Let_def
        number_toString_Integer string_of_nat.simps digit_char_def round_common_def
        floor_rat_numeral)
  from weighted_average_excludes_zeros [OF ne, of 2]
  have "c_values (hd (processCohortData ?data 2)) =
       map (\<lambda>i. if sum_of_cohort_sums (map (process_row 2) ?data) i > 0
                 then round_common
                        (sum_of_weighted_values (map (process_row 2) ?data) i
                         / sum_of_cohort_sums (map (process_row 2) ?data) i) 0
                 else 0)
           [0..<nat (2 + 1)]"
    by (elim conjE) assumption
  moreover have "[0..<nat (2 + 1)] = [0, 1, 2]"
    by code_simp
  ultimately have "c_values (hd (processCohortData ?data 2)) = [3, 1, 0]"
    unfolding rows
    by (simp add: sum_of_cohort_sums_def sum_of_weighted_values_def contributing_def
        round_common_def floor_rat_numeral)
  moreover from weighted_average_excludes_zeros [OF ne, of 2] pos
  have "\<forall>i < nat (2 + 1).
           contributing (map (process_row 2) ?data) i \<noteq> [] \<longrightarrow>
             c_values (hd (processCohortData ?data 2)) ! i =
               round_common
                 (sum_of_weighted_values (map (process_row 2) ?data) i
                  / sum_of_cohort_sums (map (process_row 2) ?data) i) 0"
    by blast
  ultimately show ?thesis
    using ne by blast
qed

section \<open>The value escaper\<close>

lemma digit_char_digit:
  "digit_char n \<in> set ''0123456789''"
  unfolding digit_char_def by (rule nth_mem) simp

lemma string_of_nat_digits:
  "set (string_of_nat n) \<subseteq> set ''0123456789''"
proof (induction n rule: string_of_nat.induct)
  case (1 n)
  show ?case
  proof (cases "n < 10")
    case True
    then show ?thesis
      using digit_char_digit [of n] by (subst string_of_nat.simps) simp
  next
    case False
    with 1 digit_char_digit [of n] show ?thesis
      by (subst string_of_nat.simps) simp
  qed
qed

lemma string_of_nat_no_quote:
  "quote_char \<notin> set (string_of_nat m)"
  using string_of_nat_digits [of m] by (auto simp: quote_char_def)

lemma finite_toString_no_quote:
  "quote_char \<notin> set (finite_toString s n)"
proof -
  have tk: "quote_char \<notin> set (take j (string_of_nat m))" for j m
    using string_of_nat_no_quote [of m] by (auto dest: in_set_takeD)
  have dr: "quote_char \<notin> set (drop j (string_of_nat m))" for j m
    using string_of_nat_no_quote [of m] by (auto dest: in_set_dropD)
  have lits: "quote_char \<noteq> CHR ''0''" "quote_char \<noteq> CHR ''.''" "quote_char \<noteq> CHR ''e''"
    "quote_char \<noteq> CHR ''-''" "quote_char \<noteq> CHR ''+''"
    by (simp_all add: quote_char_def)
  show ?thesis
    by (simp add: finite_toString_def Let_def string_of_nat_no_quote tk dr lits)
qed

lemma number_toString_no_quote:
  "quote_char \<notin> set (number_toString x)"
proof (cases x)
  case (Finite neg s n)
  have "quote_char \<noteq> CHR ''0''" "quote_char \<noteq> CHR ''-''"
    by (simp_all add: quote_char_def)
  with Finite show ?thesis
    by (simp add: finite_toString_no_quote)
qed (simp_all add: quote_char_def)

lemma backslash_not_quote:
  "backslash \<noteq> quote_char"
  by (simp add: backslash_def quote_char_def)

lemma literal_body_plain:
  "rest \<noteq> [] \<Longrightarrow> c \<noteq> quote_char \<Longrightarrow> c \<noteq> backslash \<Longrightarrow>
     literal_body (c # rest) = literal_body rest"
  by (cases rest) simp_all

lemma escape_char_shape:
  "(\<exists>x. escape_char c = [backslash, x])
   \<or> (escape_char c = [c] \<and> c \<noteq> quote_char \<and> c \<noteq> backslash)"
  by (simp add: escape_char_def)

lemma literal_body_escape_char:
  assumes "rest \<noteq> []"
  shows "literal_body (escape_char c @ rest) = literal_body rest"
  using escape_char_shape [of c]
proof (elim disjE exE conjE)
  fix x
  assume "escape_char c = [backslash, x]"
  then show ?thesis
    by (simp add: backslash_not_quote)
next
  assume "escape_char c = [c]" "c \<noteq> quote_char" "c \<noteq> backslash"
  with assms show ?thesis
    by (simp add: literal_body_plain)
qed

lemma literal_body_escaped_string:
  "literal_body (concat (map escape_char s) @ [quote_char])"
  by (induction s) (simp_all add: literal_body_escape_char)

lemma single_literal_escapeString:
  "single_literal (escapeString s)"
  using literal_body_escaped_string [of s]
  by (simp add: single_literal_def escapeString_def)

lemma digit_char_plain:
  "escape_char (digit_char n) = [digit_char n]" "CHR ''T'' \<noteq> digit_char n"
  using digit_char_digit [of n]
  by (auto simp: escape_char_def quote_char_def backslash_def)

lemma separators_plain:
  "escape_char CHR ''-'' = ''-''" "escape_char CHR '':'' = '':''" "escape_char CHR '' '' = '' ''"
  by (simp_all add: escape_char_def quote_char_def backslash_def)

lemma replace_first_append:
  "c \<notin> set xs \<Longrightarrow> replace_first c r (xs @ c # ys) = xs @ r @ ys"
  by (induction xs) auto

lemma iso_date_plain:
  assumes "0 \<le> YearFromTime t" "YearFromTime t \<le> 9999"
  shows "concat (map escape_char (iso_date t)) = iso_date t"
    and "CHR ''T'' \<notin> set (iso_date t)"
    and "length (iso_date t) = 10"
  using assms
  by (simp_all add: iso_date_def iso_year_def pad2_def pad4_def digit_char_plain
      separators_plain)

lemma iso_time_plain:
  "concat (map escape_char (iso_time t)) = iso_time t" "length (iso_time t) = 8"
  by (simp_all add: iso_time_def pad2_def digit_char_plain separators_plain)

lemma escaped_date_text:
  assumes "0 \<le> YearFromTime t" "YearFromTime t \<le> 9999"
  shows "escapeString (iso_date t @ '' '' @ iso_time t)
           = [quote_char] @ iso_date t @ '' '' @ iso_time t @ [quote_char]"
  by (simp add: escapeString_def iso_date_plain(1) [OF assms] iso_time_plain(1)
      separators_plain)

lemma escapeValue_date:
  assumes "0 \<le> YearFromTime t" "YearFromTime t \<le> 9999" and valid: "\<bar>t\<bar> \<le> 8640000000000000"
  shows "escapeValue (Some (SqlDate (TimeValue t)))
           = Inr ([quote_char] @ iso_date t @ '' '' @ iso_time t @ [quote_char])"
proof -
  let ?rest = "''.'' @ pad3 (msFromTime t) @ ''Z''"
  have iso: "toISOString (TimeValue t) = Inr (iso_date t @ ''T'' @ iso_time t @ ?rest)"
    using valid by (simp add: toISOString_def thisTimeValue_def TimeClip_def)
  have cut: "take 19 (iso_date t @ ''T'' @ iso_time t @ ?rest) = iso_date t @ ''T'' @ iso_time t"
    by (simp add: iso_date_plain(3) [OF assms(1,2)] iso_time_plain(2))
  have repl: "replace_first CHR ''T'' '' '' (iso_date t @ ''T'' @ iso_time t)
                = iso_date t @ '' '' @ iso_time t"
    using replace_first_append [OF iso_date_plain(2) [OF assms(1,2)], of "'' ''" "iso_time t"]
    by simp
  have "escapeValue (Some (SqlDate (TimeValue t)))
          = Inr (escapeString (iso_date t @ '' '' @ iso_time t))"
    unfolding escapeValue.simps iso
    by (simp only: sum.case cut repl escape.simps)
  then show ?thesis
    by (simp only: escaped_date_text [OF assms(1,2)])
qed

lemma escapeValue_array:
  "map (\<lambda>v. escapeValue (Some v)) vs = map Inr ss \<Longrightarrow>
     escapeValue (Some (SqlArray vs)) = Inr (''('' @ array_join '', '' ss @ '')'')"
  by (simp add: collect_map_Inr)

lemma escapeValue_OBrien:
  "escapeValue (Some (SqlString (''O'' @ [quote_char] @ ''Brien'')))
     = Inr ([quote_char] @ ''O'' @ [backslash, quote_char] @ ''Brien'' @ [quote_char])"
  by (simp add: escapeString_def escape_char_def quote_char_def backslash_def)

text \<open>
  The escaper has inputs on which it does not produce a literal at all, or not one of
  second precision: an invalid \<^verbatim>\<open>Date\<close> makes \<^verbatim>\<open>toISOString\<close> throw, and the first
  millisecond of the year 10000 has the ISO text \<^verbatim>\<open>+010000-01-01T00:00:00.000Z\<close>, whose
  first 19 characters end with the minutes.
\<close>

theorem escapeValue_date_counterexample:
  "escapeValue (Some (SqlDate InvalidDate)) = Inl (RangeError ''Invalid time value'')
   \<and> toISOString (TimeValue 253402300800000) = Inr ''+010000-01-01T00:00:00.000Z''
   \<and> escapeValue (Some (SqlDate (TimeValue 253402300800000)))
       = Inr ([quote_char] @ ''+010000-01-01 00:00'' @ [quote_char])"
proof -
  have y: "civil_from_days (Day 253402300800000) = (10000, 1, 1)"
    by code_simp
  have w: "TimeWithinDay 253402300800000 = 0"
    by code_simp
  have iso: "toISOString (TimeValue 253402300800000) = Inr ''+010000-01-01T00:00:00.000Z''"
    by (simp add: toISOString_def iso_date_def iso_time_def iso_year_def YearFromTime_def
        MonthFromTime_def DateFromTime_def HourFromTime_def MinFromTime_def SecFromTime_def
        msFromTime_def y w pad2_def pad3_def pad6_def digit_char_def thisTimeValue_def
        TimeClip_def)
  show ?thesis
    unfolding escapeValue.simps iso
    by (simp add: toISOString_def thisTimeValue_def escapeString_def escape_char_def
        quote_char_def backslash_def)
qed

text \<open>
  C1. \<^verbatim>\<open>null\<close> escapes to \<^verbatim>\<open>NULL\<close>. An array whose elements escape to the
  texts \<open>ss\<close> escapes to these texts joined by a comma and a space, in parentheses. A
  valid \<^verbatim>\<open>Date\<close> whose UTC year lies in 0..9999 escapes to its ISO text cut after the
  seconds, with a space in place of the \<^verbatim>\<open>T\<close>, inside single quotes, and that is one
  SQL string literal; an invalid \<^verbatim>\<open>Date\<close> makes the escaper throw \<^verbatim>\<open>RangeError\<close>. A
  string escapes to one SQL string literal: no single quote in it ends the literal
  before its last character. Every number, whole or fractional, in plain or exponent
  notation, \<^verbatim>\<open>NaN\<close> and the infinities included, escapes to the text JavaScript prints
  for it, and a boolean to \<^verbatim>\<open>true\<close> or \<^verbatim>\<open>false\<close>: bare text without any single quote.
  The string \<^verbatim>\<open>O'Brien\<close> escapes to \<^verbatim>\<open>'O\'Brien'\<close>.
\<close>

theorem escapeValue_rules:
  "escapeValue (Some SqlNull) = Inr ''NULL''
   \<and> (map (\<lambda>v. escapeValue (Some v)) vs = map Inr ss \<longrightarrow>
        escapeValue (Some (SqlArray vs)) = Inr (''('' @ array_join '', '' ss @ '')''))
   \<and> (thisTimeValue d = None \<longrightarrow>
        escapeValue (Some (SqlDate d)) = Inl (RangeError ''Invalid time value''))
   \<and> (\<bar>t\<bar> \<le> 8640000000000000 \<and> 0 \<le> YearFromTime t \<and> YearFromTime t \<le> 9999 \<longrightarrow>
        toISOString (TimeValue t)
          = Inr (iso_date t @ ''T'' @ iso_time t @ ''.'' @ pad3 (msFromTime t) @ ''Z'')
      \<and> escapeValue (Some (SqlDate (TimeValue t)))
          = Inr ([quote_char] @ iso_date t @ '' '' @ iso_time t @ [quote_char])
      \<and> single_literal ([quote_char] @ iso_date t @ '' '' @ iso_time t @ [quote_char]))
   \<and> escapeValue (Some (SqlString s)) = Inr (escapeString s)
   \<and> single_literal (escapeString s)
   \<and> escapeValue (Some (SqlNumber n)) = Inr (number_toString n)
   \<and> quote_char \<notin> set (number_toString n)
   \<and> escapeValue (Some (SqlBoolean b)) = Inr (if b then ''true'' else ''false'')
   \<and> quote_char \<notin> set (if b then ''true'' else ''false'')
   \<and> escapeValue (Some (SqlString (''O'' @ [quote_char] @ ''Brien'')))
       = Inr ([quote_char] @ ''O'' @ [backslash, quote_char] @ ''Brien'' @ [quote_char])"
proof -
  have date_literal:
    "single_literal ([quote_char] @ iso_date t @ '' '' @ iso_time t @ [quote_char])"
    if y: "0 \<le> YearFromTime t" "YearFromTime t \<le> 9999"
    using single_literal_escapeString [of "iso_date t @ '' '' @ iso_time t"]
    by (simp only: escaped_date_text [OF y])
  show ?thesis
    apply (intro conjI impI)
    subgoal by simp
    subgoal by (rule escapeValue_array)
    subgoal by (simp add: toISOString_def)
    subgoal by (simp add: toISOString_def thisTimeValue_def TimeClip_def)
    subgoal by (rule escapeValue_date) auto
    subgoal by (rule date_literal) auto
    subgoal by simp
    subgoal by (rule single_literal_escapeString)
    subgoal by simp
    subgoal by (rule number_toString_no_quote)
    subgoal by simp
    subgoal by (simp add: quote_char_def)
    subgoal by (rule escapeValue_OBrien)
    done
qed

theorem escapeValue_rules_witness:
  "map (\<lambda>v. escapeValue (Some v)) [SqlNumber (Integer 7), SqlNull] = map Inr [''7'', ''NULL'']
   \<and> escapeValue (Some (SqlArray [SqlNumber (Integer 7), SqlNull])) = Inr ''(7, NULL)''
   \<and> thisTimeValue (TimeValue 8640000000000001) = None
   \<and> escapeValue (Some (SqlDate (TimeValue 8640000000000001)))
       = Inl (RangeError ''Invalid time value'')
   \<and> \<bar>1709210096789 :: int\<bar> \<le> 8640000000000000
   \<and> 0 \<le> YearFromTime 1709210096789 \<and> YearFromTime 1709210096789 \<le> 9999
   \<and> escapeValue (Some (SqlDate (TimeValue 1709210096789)))
       = Inr ([quote_char] @ ''2024-02-29 12:34:56'' @ [quote_char])
   \<and> escapeValue (Some (SqlNumber (Integer (10 ^ 21)))) = Inr ''1e+21''
   \<and> escapeValue (Some (SqlNumber (Finite True 14375 2))) = Inr ''-14.375''"
proof -
  have elems: "map (\<lambda>v. escapeValue (Some v)) [SqlNumber (Integer 7), SqlNull]
      = map Inr [''7'', ''NULL'']"
    by (simp add: number_toString_Integer string_of_nat.simps digit_char_def)
  have clipped: "thisTimeValue (TimeValue 8640000000000001) = None"
    by (simp add: thisTimeValue_def TimeClip_def)
  have valid: "\<bar>1709210096789 :: int\<bar> \<le> 8640000000000000"
    by simp
  have c: "civil_from_days (Day 1709210096789) = (2024, 2, 29)"
    by code_simp
  have w: "TimeWithinDay 1709210096789 = 45296789"
    by code_simp
  have y: "0 \<le> YearFromTime 1709210096789 \<and> YearFromTime 1709210096789 \<le> 9999"
    by (simp add: YearFromTime_def c)
  have d: "iso_date 1709210096789 = ''2024-02-29''"
    by (simp add: iso_date_def iso_year_def YearFromTime_def MonthFromTime_def DateFromTime_def
        c pad2_def pad4_def digit_char_def)
  have tm: "iso_time 1709210096789 = ''12:34:56''"
    by (simp add: iso_time_def HourFromTime_def MinFromTime_def SecFromTime_def w pad2_def
        digit_char_def)
  have big: "number_toString (Integer (10 ^ 21)) = ''1e+21''"
    by (simp add: Integer_def finite_toString_def Let_def strip_zeros.simps
        string_of_nat.simps digit_char_def)
  have frac: "number_toString (Finite True 14375 2) = ''-14.375''"
    by (simp add: finite_toString_def Let_def strip_zeros.simps string_of_nat.simps
        digit_char_def)
  note main = escapeValue_rules [of "[SqlNumber (Integer 7), SqlNull]" "[''7'', ''NULL'']"
      "TimeValue 8640000000000001" 1709210096789]
  from main elems have a: "escapeValue (Some (SqlArray [SqlNumber (Integer 7), SqlNull]))
      = Inr (''('' @ array_join '', '' [''7'', ''NULL''] @ '')'')"
    by blast
  from main clipped have i: "escapeValue (Some (SqlDate (TimeValue 8640000000000001)))
       = Inl (RangeError ''Invalid time value'')"
    by blast
  from main valid y have b: "escapeValue (Some (SqlDate (TimeValue 1709210096789)))
          = Inr ([quote_char] @ iso_date 1709210096789 @ '' '' @ iso_time 1709210096789
                 @ [quote_char])"
    by blast
  from escapeValue_rules [where n = "Integer (10 ^ 21)"]
  have n1: "escapeValue (Some (SqlNumber (Integer (10 ^ 21))))
      = Inr (number_toString (Integer (10 ^ 21)))"
    by blast
  from escapeValue_rules [where n = "Finite True 14375 2"]
  have n2: "escapeValue (Some (SqlNumber (Finite True 14375 2)))
      = Inr (number_toString (Finite True 14375 2))"
    by blast
  from a have a': "escapeValue (Some (SqlArray [SqlNumber (Integer 7), SqlNull])) = Inr ''(7, NULL)''"
    by simp
  from b have b': "escapeValue (Some (SqlDate (TimeValue 1709210096789)))
       = Inr ([quote_char] @ ''2024-02-29 12:34:56'' @ [quote_char])"
    by (simp add: d tm)
  from n1 have n1': "escapeValue (Some (SqlNumber (Integer (10 ^ 21)))) = Inr ''1e+21''"
    by (simp only: big)
  from n2 have n2': "escapeValue (Some (SqlNumber (Finite True 14375 2))) = Inr ''-14.375''"
    by (simp only: frac)
  show ?thesis
    using elems clipped valid y a' b' i n1' n2' by blast
qed

end
